theory Spec2Isabelle
  imports Complex_Main
begin

section \<open>Variational attention (onmt/modules/VariationalAttention.py)\<close>

text \<open>
  A shallow embedding of the class \<^verbatim>\<open>VariationalAttention\<close>: its constructor, \<^verbatim>\<open>score\<close>,
  \<^verbatim>\<open>sample_attn\<close> and \<^verbatim>\<open>forward\<close>.

  Conventions of the embedding.
  \<^item> A tensor of rank \<open>r\<close> is a record of its \<open>r\<close> sizes and an element function; a
    property of a tensor speaks about the indices inside its sizes only.
  \<^item> A finite floating-point number is idealised as a real number (no rounding, no
    overflow). The two special values the code itself creates are explicit:
    \<open>NegInf\<close> (written by \<^verbatim>\<open>masked_fill_(..., -float('inf'))\<close>) and \<open>NaN\<close> (what
    softmax returns on a row that is \<open>-inf\<close> everywhere).
  \<^item> Every \<^verbatim>\<open>raise\<close>, failed \<^verbatim>\<open>assert\<close>, read of an unbound local, attribute access on
    \<^verbatim>\<open>None\<close> and size error of the tensor runtime is a value \<open>Inl e\<close>.
  \<^item> The random draws of \<^verbatim>\<open>torch.distributions\<close> are an explicit argument (the random
    source), so that \<open>forward\<close> and \<open>sample_attn\<close> are functions.
\<close>

subsection \<open>Errors\<close>

datatype error =
    AssertionError
  | ShapeMismatch
  | AttributeError
  | TypeError
  | UnboundLocalError
  | RuntimeError
  | Exception string

definition bnd :: "error + 'a \<Rightarrow> ('a \<Rightarrow> error + 'b) \<Rightarrow> error + 'b" where
  "bnd m f = (case m of Inl e \<Rightarrow> Inl e | Inr x \<Rightarrow> f x)"

text \<open>
  Modelled from the spec: \<^verbatim>\<open>aeq\<close> of \<^verbatim>\<open>onmt.Utils\<close> is not among the sources. The spec
  (4.1, 7a) has the size agreement checked first, failing with a size-mismatch error.
\<close>

definition aeq :: "nat \<Rightarrow> nat \<Rightarrow> error + unit" where
  "aeq a b = (if a = b then Inr () else Inl ShapeMismatch)"

subsection \<open>Numbers and tensors\<close>

datatype score = Fin real | NegInf

datatype fnum = Num real | NaN

record 'a t1 =
  d1_0 :: nat
  el1 :: "nat \<Rightarrow> 'a"

record 'a t2 =
  d2_0 :: nat
  d2_1 :: nat
  el2 :: "nat \<Rightarrow> nat \<Rightarrow> 'a"

record 'a t3 =
  d3_0 :: nat
  d3_1 :: nat
  d3_2 :: nat
  el3 :: "nat \<Rightarrow> nat \<Rightarrow> nat \<Rightarrow> 'a"

record 'a t4 =
  d4_0 :: nat
  d4_1 :: nat
  d4_2 :: nat
  d4_3 :: nat
  el4 :: "nat \<Rightarrow> nat \<Rightarrow> nat \<Rightarrow> nat \<Rightarrow> 'a"

text \<open>A check over the indices below a bound, by recursion on the bound.\<close>

primrec all_below :: "(nat \<Rightarrow> bool) \<Rightarrow> nat \<Rightarrow> bool" where
  "all_below P 0 = True"
| "all_below P (Suc n) = (all_below P n \<and> P n)"

text \<open>Broadcasting: a size is expandable to another when it is equal to it or is 1.\<close>

definition expandable :: "nat \<Rightarrow> nat \<Rightarrow> bool" where
  "expandable a b = (a = b \<or> a = 1)"

definition bi :: "nat \<Rightarrow> nat \<Rightarrow> nat" where
  "bi a i = (if a = 1 then 0 else i)"

subsection \<open>The tensor operations the module calls\<close>

definition map2t :: "('a \<Rightarrow> 'b) \<Rightarrow> 'a t2 \<Rightarrow> 'b t2" where
  "map2t f x = \<lparr>d2_0 = d2_0 x, d2_1 = d2_1 x, el2 = (\<lambda>i j. f (el2 x i j))\<rparr>"

definition map3t :: "('a \<Rightarrow> 'b) \<Rightarrow> 'a t3 \<Rightarrow> 'b t3" where
  "map3t f x = \<lparr>d3_0 = d3_0 x, d3_1 = d3_1 x, d3_2 = d3_2 x,
     el3 = (\<lambda>i j k. f (el3 x i j k))\<rparr>"

definition map4t :: "('a \<Rightarrow> 'b) \<Rightarrow> 'a t4 \<Rightarrow> 'b t4" where
  "map4t f x = \<lparr>d4_0 = d4_0 x, d4_1 = d4_1 x, d4_2 = d4_2 x, d4_3 = d4_3 x,
     el4 = (\<lambda>i j k l. f (el4 x i j k l))\<rparr>"

text \<open>\<^verbatim>\<open>x.unsqueeze(1)\<close> on rank 2 and rank 3, \<^verbatim>\<open>x.unsqueeze(0)\<close> on rank 3.\<close>

definition unsqueeze1 :: "'a t2 \<Rightarrow> 'a t3" where
  "unsqueeze1 x = \<lparr>d3_0 = d2_0 x, d3_1 = 1, d3_2 = d2_1 x, el3 = (\<lambda>i j k. el2 x i k)\<rparr>"

definition unsqueeze0 :: "'a t3 \<Rightarrow> 'a t4" where
  "unsqueeze0 x = \<lparr>d4_0 = 1, d4_1 = d3_0 x, d4_2 = d3_1 x, d4_3 = d3_2 x,
     el4 = (\<lambda>h i j k. el3 x i j k)\<rparr>"

text \<open>
  \<^verbatim>\<open>x.squeeze(1)\<close> on rank 3 and \<^verbatim>\<open>x.squeeze(2)\<close> on rank 4. \<open>forward\<close> squeezes only in
  its one-step branch, where the squeezed axis is the time axis that \<^verbatim>\<open>unsqueeze(1)\<close>
  added, of size 1; the result has one axis less.
\<close>

definition squeeze1 :: "'a t3 \<Rightarrow> 'a t2" where
  "squeeze1 x = \<lparr>d2_0 = d3_0 x, d2_1 = d3_2 x, el2 = (\<lambda>i k. el3 x i 0 k)\<rparr>"

definition squeeze2 :: "'a t4 \<Rightarrow> 'a t3" where
  "squeeze2 x = \<lparr>d3_0 = d4_0 x, d3_1 = d4_1 x, d3_2 = d4_3 x,
     el3 = (\<lambda>h i k. el4 x h i 0 k)\<rparr>"

text \<open>\<^verbatim>\<open>x.squeeze(2)\<close> on the rank 3 tensor of sample log-probabilities (K, N, 1).\<close>

definition squeeze_last :: "'a t3 \<Rightarrow> 'a t2" where
  "squeeze_last x = \<lparr>d2_0 = d3_0 x, d2_1 = d3_1 x, el2 = (\<lambda>h i. el3 x h i 0)\<rparr>"

text \<open>
  Row-major positions. \<open>at_flat3\<close> and \<open>at_flat4\<close> read the element at a position of the
  contiguous storage; \<^verbatim>\<open>view\<close> keeps the storage and changes the sizes.
\<close>

definition at_flat3 :: "'a t3 \<Rightarrow> nat \<Rightarrow> 'a" where
  "at_flat3 x f =
     el3 x (f div (d3_1 x * d3_2 x)) (f div d3_2 x mod d3_1 x) (f mod d3_2 x)"

definition at_flat4 :: "'a t4 \<Rightarrow> nat \<Rightarrow> 'a" where
  "at_flat4 x f =
     el4 x (f div (d4_1 x * d4_2 x * d4_3 x)) (f div (d4_2 x * d4_3 x) mod d4_1 x)
       (f div d4_3 x mod d4_2 x) (f mod d4_3 x)"

text \<open>\<^verbatim>\<open>x.view(a, b)\<close> on rank 3 and \<^verbatim>\<open>x.view(a, b, c)\<close> on rank 2.\<close>

definition view_3_2 :: "'a t3 \<Rightarrow> nat \<Rightarrow> nat \<Rightarrow> error + 'a t2" where
  "view_3_2 x a b =
     (if d3_0 x * d3_1 x * d3_2 x = a * b
      then Inr \<lparr>d2_0 = a, d2_1 = b, el2 = (\<lambda>i j. at_flat3 x (i * b + j))\<rparr>
      else Inl RuntimeError)"

definition view_2_3 :: "'a t2 \<Rightarrow> nat \<Rightarrow> nat \<Rightarrow> nat \<Rightarrow> error + 'a t3" where
  "view_2_3 x a b c =
     (if d2_0 x * d2_1 x = a * b * c
      then Inr \<lparr>d3_0 = a, d3_1 = b, d3_2 = c,
             el3 = (\<lambda>i j k. el2 x (((i * b + j) * c + k) div d2_1 x)
                                  (((i * b + j) * c + k) mod d2_1 x))\<rparr>
      else Inl RuntimeError)"

text \<open>
  \<^verbatim>\<open>x.view(-1, a, b)\<close> on rank 4: the first size is inferred, which needs \<open>a * b\<close> to
  be positive and to divide the number of elements.
\<close>

definition view_m1_4_3 :: "'a t4 \<Rightarrow> nat \<Rightarrow> nat \<Rightarrow> error + 'a t3" where
  "view_m1_4_3 x a b =
     (let total = d4_0 x * d4_1 x * d4_2 x * d4_3 x in
      if a * b = 0 \<or> total mod (a * b) \<noteq> 0 then Inl RuntimeError
      else Inr \<lparr>d3_0 = total div (a * b), d3_1 = a, d3_2 = b,
             el3 = (\<lambda>i j k. at_flat4 x ((i * a + j) * b + k))\<rparr>)"

text \<open>\<^verbatim>\<open>x.view(a, b, c, d)\<close> on rank 3.\<close>

definition view_3_4 :: "'a t3 \<Rightarrow> nat \<Rightarrow> nat \<Rightarrow> nat \<Rightarrow> nat \<Rightarrow> error + 'a t4" where
  "view_3_4 x a b c d =
     (if d3_0 x * d3_1 x * d3_2 x = a * b * c * d
      then Inr \<lparr>d4_0 = a, d4_1 = b, d4_2 = c, d4_3 = d,
             el4 = (\<lambda>h i j k. at_flat3 x (((h * b + i) * c + j) * d + k))\<rparr>
      else Inl RuntimeError)"

text \<open>\<^verbatim>\<open>x.transpose(1, 2)\<close> on rank 3.\<close>

definition transpose12 :: "'a t3 \<Rightarrow> 'a t3" where
  "transpose12 x = \<lparr>d3_0 = d3_0 x, d3_1 = d3_2 x, d3_2 = d3_1 x,
     el3 = (\<lambda>i j k. el3 x i k j)\<rparr>"

text \<open>
  \<^verbatim>\<open>torch.bmm(a, b)\<close>: both of rank 3, the same number of matrices, and the inner sizes
  agree. \<open>bmm_f\<close> is the same product when the left factor may hold \<open>NaN\<close>.
\<close>

definition bmm :: "real t3 \<Rightarrow> real t3 \<Rightarrow> error + real t3" where
  "bmm a b =
     (if d3_0 a = d3_0 b \<and> d3_2 a = d3_1 b
      then Inr \<lparr>d3_0 = d3_0 a, d3_1 = d3_1 a, d3_2 = d3_2 b,
             el3 = (\<lambda>i j k. \<Sum>l<d3_2 a. el3 a i j l * el3 b i l k)\<rparr>
      else Inl RuntimeError)"

fun fadd :: "fnum \<Rightarrow> fnum \<Rightarrow> fnum" where
  "fadd (Num a) (Num b) = Num (a + b)"
| "fadd _ _ = NaN"

fun fmul :: "fnum \<Rightarrow> fnum \<Rightarrow> fnum" where
  "fmul (Num a) (Num b) = Num (a * b)"
| "fmul _ _ = NaN"

primrec fsum :: "(nat \<Rightarrow> fnum) \<Rightarrow> nat \<Rightarrow> fnum" where
  "fsum f 0 = Num 0"
| "fsum f (Suc n) = fadd (fsum f n) (f n)"

definition bmm_f :: "fnum t3 \<Rightarrow> real t3 \<Rightarrow> error + fnum t3" where
  "bmm_f a b =
     (if d3_0 a = d3_0 b \<and> d3_2 a = d3_1 b
      then Inr \<lparr>d3_0 = d3_0 a, d3_1 = d3_1 a, d3_2 = d3_2 b,
             el3 = (\<lambda>i j k. fsum (\<lambda>l. fmul (el3 a i j l) (Num (el3 b i l k))) (d3_2 a))\<rparr>
      else Inl RuntimeError)"

text \<open>\<^verbatim>\<open>torch.cat([a, b], -1)\<close> on rank 3 and rank 4: the leading sizes agree.\<close>

definition cat3 :: "'a t3 \<Rightarrow> 'a t3 \<Rightarrow> error + 'a t3" where
  "cat3 a b =
     (if d3_0 a = d3_0 b \<and> d3_1 a = d3_1 b
      then Inr \<lparr>d3_0 = d3_0 a, d3_1 = d3_1 a, d3_2 = d3_2 a + d3_2 b,
             el3 = (\<lambda>i j k. if k < d3_2 a then el3 a i j k else el3 b i j (k - d3_2 a))\<rparr>
      else Inl RuntimeError)"

definition cat4 :: "'a t4 \<Rightarrow> 'a t4 \<Rightarrow> error + 'a t4" where
  "cat4 a b =
     (if d4_0 a = d4_0 b \<and> d4_1 a = d4_1 b \<and> d4_2 a = d4_2 b
      then Inr \<lparr>d4_0 = d4_0 a, d4_1 = d4_1 a, d4_2 = d4_2 a, d4_3 = d4_3 a + d4_3 b,
             el4 = (\<lambda>h i j k. if k < d4_3 a then el4 a h i j k
                               else el4 b h i j (k - d4_3 a))\<rparr>
      else Inl RuntimeError)"

text \<open>
  \<^verbatim>\<open>nn.Linear(n_in, n_out, bias=False)\<close> applied along the last axis, which must have
  size \<open>n_in\<close>; \<open>w c i\<close> is the weight from input feature \<open>i\<close> to output feature \<open>c\<close>.
\<close>

definition Linear2 :: "nat \<Rightarrow> nat \<Rightarrow> (nat \<Rightarrow> nat \<Rightarrow> real) \<Rightarrow> real t2 \<Rightarrow> error + real t2" where
  "Linear2 n_in n_out w x =
     (if d2_1 x = n_in
      then Inr \<lparr>d2_0 = d2_0 x, d2_1 = n_out,
             el2 = (\<lambda>i c. \<Sum>l<n_in. w c l * el2 x i l)\<rparr>
      else Inl RuntimeError)"

definition Linear3f :: "nat \<Rightarrow> nat \<Rightarrow> (nat \<Rightarrow> nat \<Rightarrow> real) \<Rightarrow> fnum t3 \<Rightarrow> error + fnum t3" where
  "Linear3f n_in n_out w x =
     (if d3_2 x = n_in
      then Inr \<lparr>d3_0 = d3_0 x, d3_1 = d3_1 x, d3_2 = n_out,
             el3 = (\<lambda>i j c. fsum (\<lambda>l. fmul (Num (w c l)) (el3 x i j l)) n_in)\<rparr>
      else Inl RuntimeError)"

definition Linear4 :: "nat \<Rightarrow> nat \<Rightarrow> (nat \<Rightarrow> nat \<Rightarrow> real) \<Rightarrow> real t4 \<Rightarrow> error + real t4" where
  "Linear4 n_in n_out w x =
     (if d4_3 x = n_in
      then Inr \<lparr>d4_0 = d4_0 x, d4_1 = d4_1 x, d4_2 = d4_2 x, d4_3 = n_out,
             el4 = (\<lambda>h i j c. \<Sum>l<n_in. w c l * el4 x h i j l)\<rparr>
      else Inl RuntimeError)"

fun ftanh :: "fnum \<Rightarrow> fnum" where
  "ftanh (Num a) = Num (tanh a)"
| "ftanh NaN = NaN"

text \<open>
  \<^verbatim>\<open>x.masked_fill_(m, v)\<close>: the mask is broadcast to the sizes of \<open>x\<close>, and \<open>v\<close> is
  written where the mask holds. \<open>one_minus3\<close> is \<^verbatim>\<open>1 - mask\<close> on a 0/1 mask.
\<close>

definition one_minus3 :: "bool t3 \<Rightarrow> bool t3" where
  "one_minus3 m = map3t Not m"

definition one_minus4 :: "bool t4 \<Rightarrow> bool t4" where
  "one_minus4 m = map4t Not m"

definition masked_fill3 :: "'a t3 \<Rightarrow> bool t3 \<Rightarrow> 'a \<Rightarrow> error + 'a t3" where
  "masked_fill3 x m v =
     (if expandable (d3_0 m) (d3_0 x) \<and> expandable (d3_1 m) (d3_1 x)
         \<and> expandable (d3_2 m) (d3_2 x)
      then Inr \<lparr>d3_0 = d3_0 x, d3_1 = d3_1 x, d3_2 = d3_2 x,
             el3 = (\<lambda>i j k. if el3 m (bi (d3_0 m) i) (bi (d3_1 m) j) (bi (d3_2 m) k)
                             then v else el3 x i j k)\<rparr>
      else Inl RuntimeError)"

definition masked_fill4 :: "'a t4 \<Rightarrow> bool t4 \<Rightarrow> 'a \<Rightarrow> error + 'a t4" where
  "masked_fill4 x m v =
     (if expandable (d4_0 m) (d4_0 x) \<and> expandable (d4_1 m) (d4_1 x)
         \<and> expandable (d4_2 m) (d4_2 x) \<and> expandable (d4_3 m) (d4_3 x)
      then Inr \<lparr>d4_0 = d4_0 x, d4_1 = d4_1 x, d4_2 = d4_2 x, d4_3 = d4_3 x,
             el4 = (\<lambda>h i j k.
                      if el4 m (bi (d4_0 m) h) (bi (d4_1 m) i) (bi (d4_2 m) j) (bi (d4_3 m) k)
                      then v else el4 x h i j k)\<rparr>
      else Inl RuntimeError)"

text \<open>
  Softmax along the last axis. \<open>exp\<close> of \<open>-inf\<close> is 0; a row that is \<open>-inf\<close> everywhere
  has no finite maximum and comes out as \<open>NaN\<close>.
\<close>

fun sexp :: "score \<Rightarrow> real" where
  "sexp (Fin x) = exp x"
| "sexp NegInf = 0"

definition softmax_row :: "(nat \<Rightarrow> score) \<Rightarrow> nat \<Rightarrow> nat \<Rightarrow> fnum" where
  "softmax_row r n k =
     (if all_below (\<lambda>j. r j = NegInf) n then NaN
      else Num (sexp (r k) / (\<Sum>j<n. sexp (r j))))"

definition softmax3 :: "score t3 \<Rightarrow> fnum t3" where
  "softmax3 x = \<lparr>d3_0 = d3_0 x, d3_1 = d3_1 x, d3_2 = d3_2 x,
     el3 = (\<lambda>i j k. softmax_row (el3 x i j) (d3_2 x) k)\<rparr>"

text \<open>
  Modelled from the spec: \<^verbatim>\<open>sequence_mask\<close> of \<^verbatim>\<open>onmt.Utils\<close> is not among the sources.
  The spec (4.2) has it build, from the valid lengths, a boolean mask with one row per
  example that marks the valid positions. \<open>forward\<close> calls it with the lengths alone
  (\<^verbatim>\<open>sequence_mask(memory_lengths)\<close>), so the width of the mask comes from the lengths:
  it is the longest length, which is the source length when the batch is padded to its
  longest example. An empty vector of lengths has no longest length, and a negative
  longest length gives no range of positions.
\<close>

primrec max_upto :: "(nat \<Rightarrow> int) \<Rightarrow> nat \<Rightarrow> int" where
  "max_upto f 0 = f 0"
| "max_upto f (Suc n) = max (max_upto f n) (f (Suc n))"

definition lengths_max :: "int t1 \<Rightarrow> int" where
  "lengths_max lengths = max_upto (el1 lengths) (d1_0 lengths - 1)"

definition sequence_mask :: "int t1 \<Rightarrow> error + bool t2" where
  "sequence_mask lengths =
     (if d1_0 lengths = 0 then Inl RuntimeError
      else (let max_len = lengths_max lengths in
            if max_len < 0 then Inl RuntimeError
            else Inr \<lparr>d2_0 = d1_0 lengths, d2_1 = nat max_len,
                   el2 = (\<lambda>b s. int s < el1 lengths b)\<rparr>))"

subsection \<open>Distribution bundles and the module\<close>

text \<open>
  \<^verbatim>\<open>Params\<close> and \<^verbatim>\<open>DistInfo\<close> of \<^verbatim>\<open>onmt.Utils\<close>: every field but \<open>dist_type\<close> may be
  \<^verbatim>\<open>None\<close>. The type arguments are the tensor types of \<open>alpha\<close>, \<open>log_alpha\<close>, \<open>samples\<close>
  and \<open>sample_log_probs\<close>, whose ranks differ between the one-step and the
  full-sequence form.
\<close>

record ('al, 'la, 'sm, 'lp) params =
  alpha :: "'al option"
  log_alpha :: "'la option"
  dist_type :: string
  samples :: "'sm option"
  sample_log_probs :: "'lp option"

type_synonym q_step = "(real t2, score t2, real t3, score t2) params"
type_synonym q_seq = "(real t3, score t3, real t4, score t3) params"
type_synonym p_step = "(fnum t2, score t2, real t3, score t2) params"
type_synonym p_seq = "(fnum t3, score t3, real t4, score t3) params"

record dist_info =
  info_q :: "q_step option"
  info_p :: "p_step"

record attention =
  dim :: nat
  p_dist_type :: string
  q_dist_tyqe :: string
  use_prior :: bool
  scoresF :: "real \<Rightarrow> real"
  n_samples :: nat
  mode :: string
  linear_in :: "nat \<Rightarrow> nat \<Rightarrow> real"
  linear_out :: "nat \<Rightarrow> nat \<Rightarrow> real"

text \<open>
  \<^verbatim>\<open>__init__\<close>. The weights that \<^verbatim>\<open>nn.Linear\<close> initialises are arguments (\<open>w_in\<close> of
  sizes dim x dim, \<open>w_out\<close> of sizes dim x 2 dim). \<open>q_dist_type\<close> is stored under the
  attribute \<^verbatim>\<open>q_dist_tyqe\<close>; \<open>e_dist_type\<close> and \<open>input_feed_type\<close> are not stored. The
  extra layers of the \<^verbatim>\<open>log_normal\<close> case are read by \<^verbatim>\<open>get_raw_scores\<close> only, which
  \<open>forward\<close> calls after a \<^verbatim>\<open>raise\<close>; they are left out.
\<close>

definition VariationalAttention_init ::
  "nat \<Rightarrow> string \<Rightarrow> string \<Rightarrow> string \<Rightarrow> bool \<Rightarrow> (real \<Rightarrow> real) \<Rightarrow> nat \<Rightarrow> string \<Rightarrow> string
   \<Rightarrow> (nat \<Rightarrow> nat \<Rightarrow> real) \<Rightarrow> (nat \<Rightarrow> nat \<Rightarrow> real) \<Rightarrow> attention" where
  "VariationalAttention_init dim' p_dist_type' q_dist_type' e_dist_type' use_prior'
       scoresF' n_samples' mode' input_feed_type' w_in w_out =
     \<lparr>dim = dim', p_dist_type = p_dist_type', q_dist_tyqe = q_dist_type',
      use_prior = use_prior', scoresF = scoresF', n_samples = n_samples', mode = mode',
      linear_in = w_in, linear_out = w_out\<rparr>"

text \<open>
  The random source: what \<^verbatim>\<open>Categorical(probs).sample(Size([K]))\<close> and
  \<^verbatim>\<open>Dirichlet(alpha).rsample(Size([K]))\<close> return on the rows of the flattened
  parameters, by sample number and row.
\<close>

record rnd =
  categorical_sample :: "nat \<Rightarrow> nat \<Rightarrow> nat"
  dirichlet_rsample :: "nat \<Rightarrow> nat \<Rightarrow> nat \<Rightarrow> real"

subsection \<open>score\<close>

definition score :: "attention \<Rightarrow> real t3 \<Rightarrow> real t3 \<Rightarrow> error + real t3" where
  "score self h_t h_s =
     (let src_batch = d3_0 h_s; src_len = d3_1 h_s; src_dim = d3_2 h_s;
          tgt_batch = d3_0 h_t; tgt_len = d3_1 h_t; tgt_dim = d3_2 h_t
      in bnd (aeq src_batch tgt_batch) (\<lambda>_.
         bnd (aeq src_dim tgt_dim) (\<lambda>_.
         bnd (aeq (dim self) src_dim) (\<lambda>_.
         bnd (view_3_2 h_t (tgt_batch * tgt_len) tgt_dim) (\<lambda>h_t1.
         bnd (Linear2 (dim self) (dim self) (linear_in self) h_t1) (\<lambda>h_t2.
         bnd (view_2_3 h_t2 tgt_batch tgt_len tgt_dim) (\<lambda>h_t3.
         bmm h_t3 (transpose12 h_s))))))))"

subsection \<open>sample\_attn\<close>

text \<open>
  The result is the pair of the samples and, in the categorical case, their
  log-probabilities. The branch under \<^verbatim>\<open>SAD\<close> is dead (\<^verbatim>\<open>SAD=False\<close> is set on the
  line before the test), so \<open>lengths\<close> is not read. In the case \<^verbatim>\<open>"none"\<close> the code
  runs \<^verbatim>\<open>pass\<close> and then \<^verbatim>\<open>return attns\<close>, with \<^verbatim>\<open>attns\<close> never assigned.
\<close>

definition sample_attn ::
  "rnd \<Rightarrow> q_seq \<Rightarrow> nat \<Rightarrow> int t1 option \<Rightarrow> bool t3 option
   \<Rightarrow> error + (real t4 \<times> score t3 option)" where
  "sample_attn r params' n_samples' lengths mask' =
     (if dist_type params' = ''dirichlet'' then
        (case alpha params' of
           None \<Rightarrow> Inl AttributeError
         | Some a \<Rightarrow>
            (let K = n_samples'; N = d3_0 a; T = d3_1 a; S = d3_2 a;
                 attns = \<lparr>d4_0 = K, d4_1 = N, d4_2 = T, d4_3 = S,
                          el4 = (\<lambda>k n t s. dirichlet_rsample r k (n * T + t) s)\<rparr>
             in (case mask' of
                   None \<Rightarrow> Inl AttributeError
                 | Some m \<Rightarrow>
                     bnd (masked_fill4 attns (one_minus4 (unsqueeze0 m)) 0)
                       (\<lambda>attns. Inr (attns, None)))))
      else if dist_type params' = ''categorical'' then
        (case alpha params' of
           None \<Rightarrow> Inl AttributeError
         | Some a \<Rightarrow>
            (let K = n_samples'; N = d3_0 a; T = d3_1 a; S = d3_2 a;
                 attns_id = (\<lambda>k n t. categorical_sample r k (n * T + t))
             in if \<not> all_below (\<lambda>k. all_below (\<lambda>n. all_below (\<lambda>t. attns_id k n t < S) T) N) K
                then Inl RuntimeError
                else
                 (let attns = \<lparr>d4_0 = K, d4_1 = N, d4_2 = T, d4_3 = S,
                          el4 = (\<lambda>k n t s. if s = attns_id k n t then 1 else 0)\<rparr>
                  in (case log_alpha params' of
                        None \<Rightarrow> Inl AttributeError
                      | Some la \<Rightarrow>
                         if expandable (d3_0 la) N \<and> expandable (d3_1 la) T
                            \<and> expandable (d3_2 la) S
                         then Inr (attns,
                           Some \<lparr>d3_0 = K, d3_1 = N, d3_2 = T,
                             el3 = (\<lambda>k n t. el3 la (bi (d3_0 la) n) (bi (d3_1 la) t)
                                      (bi (d3_2 la) (attns_id k n t)))\<rparr>)
                         else Inl RuntimeError))))
      else if dist_type params' = ''none'' then Inl UnboundLocalError
      else Inl (Exception ''Unsupported dist''))"

subsection \<open>forward\<close>

text \<open>
  The two calling conventions. \<^verbatim>\<open>input.dim() == 2\<close> is the one-step form, whose
  \<open>q_scores\<close> bundle holds tensors without the time axis; any other query is taken as a
  full sequence \<^verbatim>\<open>[batch x tgt_len x dim]\<close>. \<open>coverage\<close> is never read.
\<close>

datatype query =
    OneStep "real t2" "q_step option"
  | FullSeq "real t3" "q_seq option"

record attention_output =
  h_y :: "real t3"
  h_c :: "fnum t2"
  c_align_vectors :: "fnum t2"
  dist_info :: dist_info

text \<open>
  Lines 240-253: a one-step query gets a time axis of size 1, and so do \<open>alpha\<close> and
  \<open>log_alpha\<close> of a bundle that has an \<open>alpha\<close>; there \<^verbatim>\<open>q_scores.log_alpha.unsqueeze(1)\<close>
  needs \<open>log_alpha\<close> not to be \<^verbatim>\<open>None\<close>. A bundle without \<open>alpha\<close> is left as it is;
  after that \<open>forward\<close> reads its \<open>alpha\<close> and its \<open>dist_type\<close> only.
\<close>

definition one_step_input :: "query \<Rightarrow> error + (bool \<times> real t3 \<times> q_seq option)" where
  "one_step_input qu =
     (case qu of
        OneStep input q_scores \<Rightarrow>
          (case q_scores of
             None \<Rightarrow> Inr (True, unsqueeze1 input, None)
           | Some q \<Rightarrow>
              (case alpha q of
                 None \<Rightarrow> Inr (True, unsqueeze1 input,
                   Some \<lparr>alpha = None, log_alpha = map_option unsqueeze1 (log_alpha q),
                         dist_type = dist_type q, samples = None, sample_log_probs = None\<rparr>)
               | Some a \<Rightarrow>
                  (case log_alpha q of
                     None \<Rightarrow> Inl AttributeError
                   | Some la \<Rightarrow> Inr (True, unsqueeze1 input,
                       Some \<lparr>alpha = Some (unsqueeze1 a), log_alpha = Some (unsqueeze1 la),
                             dist_type = dist_type q, samples = None,
                             sample_log_probs = None\<rparr>))))
      | FullSeq input q_scores \<Rightarrow> Inr (False, input, q_scores))"

text \<open>
  Lines 270-275, the masking of the dirichlet branch: \<open>-inf\<close> into the log-scores
  and \<^verbatim>\<open>math.exp(-10)\<close> into the scores, where the mask of valid positions is off.
\<close>

definition dirichlet_mask ::
  "real t3 \<Rightarrow> real t3 \<Rightarrow> int t1 \<Rightarrow> error + (score t3 \<times> real t3 \<times> bool t3)" where
  "dirichlet_mask log_scores scores lengths =
     bnd (sequence_mask lengths) (\<lambda>mask0.
       (let mask' = unsqueeze1 mask0 in
        bnd (masked_fill3 (map3t Fin log_scores) (one_minus3 mask') NegInf) (\<lambda>log_scores'.
        bnd (masked_fill3 scores (one_minus3 mask') (exp (- 10))) (\<lambda>scores'.
          Inr (log_scores', scores', mask')))))"

text \<open>
  Lines 266-301, the chain on \<open>p_dist_type\<close>: the attention weights
  \<open>c_align_vectors\<close>, the bundle \<open>p_scores\<close> and the mask (bound only when
  \<open>memory_lengths\<close> is given). With no branch taken, \<open>c_align_vectors\<close> is unbound at
  its first use.
\<close>

definition prior ::
  "attention \<Rightarrow> real t3 \<Rightarrow> real t3 \<Rightarrow> int t1 option
   \<Rightarrow> error + (fnum t3 \<times> p_seq \<times> bool t3 option)" where
  "prior self input memory_bank memory_lengths =
     (if p_dist_type self = ''dirichlet'' then
        bnd (score self input memory_bank) (\<lambda>log_scores.
          (let scores = map3t (scoresF self) log_scores in
           case memory_lengths of
             None \<Rightarrow>
               Inr (softmax3 (map3t Fin log_scores),
                    \<lparr>alpha = Some (map3t Num scores), log_alpha = None,
                     dist_type = p_dist_type self, samples = None, sample_log_probs = None\<rparr>,
                    None)
           | Some lengths \<Rightarrow>
               bnd (dirichlet_mask log_scores scores lengths)
                 (\<lambda>(log_scores', scores', mask').
                  Inr (softmax3 log_scores',
                       \<lparr>alpha = Some (map3t Num scores'), log_alpha = None,
                        dist_type = p_dist_type self, samples = None,
                        sample_log_probs = None\<rparr>,
                       Some mask'))))
      else if p_dist_type self = ''log_normal'' then Inl (Exception ''Buggy'')
      else if p_dist_type self = ''categorical'' then
        bnd (score self input memory_bank) (\<lambda>scores.
          case memory_lengths of
            None \<Rightarrow>
              (let scores' = softmax3 (map3t Fin scores) in
               Inr (scores',
                    \<lparr>alpha = Some scores', log_alpha = None, dist_type = p_dist_type self,
                     samples = None, sample_log_probs = None\<rparr>,
                    None))
          | Some lengths \<Rightarrow>
              bnd (sequence_mask lengths) (\<lambda>mask0.
                (let mask' = unsqueeze1 mask0 in
                 bnd (masked_fill3 (map3t Fin scores) (one_minus3 mask') NegInf) (\<lambda>masked.
                   (let scores' = softmax3 masked in
                    Inr (scores',
                         \<lparr>alpha = Some scores', log_alpha = None,
                          dist_type = p_dist_type self, samples = None,
                          sample_log_probs = None\<rparr>,
                         Some mask'))))))
      else Inl UnboundLocalError)"

text \<open>
  Lines 314-333: the samples \<open>y_align_vectors\<close>, \<open>q_sample\<close> and \<open>sample_log_probs\<close>.
  Sampling from the prior is closed by \<^verbatim>\<open>assert (False)\<close>. For a bundle that is not
  categorical the call passes \<^verbatim>\<open>mode=self.mode\<close>, a keyword \<^verbatim>\<open>sample_attn\<close> does not
  have. A mode other than \<^verbatim>\<open>"sample"\<close> and \<^verbatim>\<open>"enum"\<close> leaves \<open>y_align_vectors\<close> unbound
  at its first use.
\<close>

definition posterior_sample ::
  "attention \<Rightarrow> rnd \<Rightarrow> q_seq option \<Rightarrow> int t1 option \<Rightarrow> bool t3 option
   \<Rightarrow> error + (real t4 option \<times> real t4 option \<times> score t3 option)" where
  "posterior_sample self r q_scores memory_lengths mask' =
     (if mode self = ''sample'' then
        (case q_scores of
           None \<Rightarrow> Inl AssertionError
         | Some q \<Rightarrow>
            if use_prior self then Inl AssertionError
            else if dist_type q = ''categorical'' then
              bnd (sample_attn r q (n_samples self) memory_lengths
                    (case memory_lengths of None \<Rightarrow> None | Some _ \<Rightarrow> mask'))
                (\<lambda>(q_sample, sample_log_probs').
                   Inr (Some q_sample, Some q_sample, sample_log_probs'))
            else Inl TypeError)
      else if mode self = ''enum'' then Inr (None, None, None)
      else Inl UnboundLocalError)"

text \<open>\<^verbatim>\<open>x.repeat(k, 1, 1, 1)\<close>, \<^verbatim>\<open>x.permute(2, 1, 0, 3)\<close> and \<^verbatim>\<open>x.expand_as(y)\<close> on rank 4.\<close>

definition repeat0 :: "nat \<Rightarrow> 'a t4 \<Rightarrow> 'a t4" where
  "repeat0 k x = \<lparr>d4_0 = k * d4_0 x, d4_1 = d4_1 x, d4_2 = d4_2 x, d4_3 = d4_3 x,
     el4 = (\<lambda>h i j l. el4 x (h mod d4_0 x) i j l)\<rparr>"

definition permute2103 :: "'a t4 \<Rightarrow> 'a t4" where
  "permute2103 x = \<lparr>d4_0 = d4_2 x, d4_1 = d4_1 x, d4_2 = d4_0 x, d4_3 = d4_3 x,
     el4 = (\<lambda>h i j l. el4 x j i h l)\<rparr>"

definition expand_as :: "'a t4 \<Rightarrow> 'b t4 \<Rightarrow> error + 'a t4" where
  "expand_as x y =
     (if expandable (d4_0 x) (d4_0 y) \<and> expandable (d4_1 x) (d4_1 y)
         \<and> expandable (d4_2 x) (d4_2 y) \<and> expandable (d4_3 x) (d4_3 y)
      then Inr \<lparr>d4_0 = d4_0 y, d4_1 = d4_1 y, d4_2 = d4_2 y, d4_3 = d4_3 y,
             el4 = (\<lambda>h i j l. el4 x (bi (d4_0 x) h) (bi (d4_1 x) i) (bi (d4_2 x) j)
                                 (bi (d4_3 x) l))\<rparr>
      else Inl RuntimeError)"

text \<open>
  Lines 342-353: the sampled contexts \<open>context_y\<close>: the samples times the memory bank,
  or, with no samples (mode \<^verbatim>\<open>"enum"\<close>), the memory bank itself with the source axis
  in the place of the sample axis.
\<close>

definition sampled_context ::
  "attention \<Rightarrow> real t4 option \<Rightarrow> real t3 \<Rightarrow> nat \<Rightarrow> nat \<Rightarrow> nat \<Rightarrow> nat \<Rightarrow> error + real t4" where
  "sampled_context self y_align_vectors memory_bank batch targetL sourceL dim' =
     (case y_align_vectors of
        Some y \<Rightarrow>
          bnd (view_m1_4_3 y targetL sourceL) (\<lambda>y3.
          bnd (view_m1_4_3 (repeat0 (n_samples self) (unsqueeze0 memory_bank)) sourceL dim')
            (\<lambda>m3.
          bnd (bmm y3 m3) (\<lambda>c.
            view_3_4 c (n_samples self) batch targetL dim')))
      | None \<Rightarrow> Inr (permute2103 (repeat0 targetL (unsqueeze0 memory_bank))))"

text \<open>
  Lines 359-388, the one-step branch: the time axis is squeezed away and the bundles
  are rebuilt. The branch of the full-sequence form opens with \<^verbatim>\<open>assert (False)\<close>.
\<close>

definition one_step_output ::
  "nat \<Rightarrow> nat \<Rightarrow> nat \<Rightarrow> real t4 \<Rightarrow> fnum t3 \<Rightarrow> fnum t3 \<Rightarrow> q_seq option \<Rightarrow> p_seq
   \<Rightarrow> real t4 option \<Rightarrow> score t3 option \<Rightarrow> error + attention_output" where
  "one_step_output batch sourceL dim' h_y' h_c' c_align q_scores p_scores q_sample
       sample_log_probs' =
     (let h_c2 = squeeze1 h_c';
          c_align2 = squeeze1 c_align;
          h_y2 = squeeze2 h_y';
          q_out = (case q_scores of
                     None \<Rightarrow> None
                   | Some q \<Rightarrow>
                       Some \<lparr>alpha = map_option squeeze1 (alpha q), log_alpha = None,
                             dist_type = dist_type q,
                             samples = map_option squeeze2 q_sample,
                             sample_log_probs = map_option squeeze_last sample_log_probs'\<rparr>)
      in case alpha p_scores of
           None \<Rightarrow> Inl AttributeError
         | Some pa \<Rightarrow>
            (let p_out = \<lparr>alpha = Some (squeeze1 pa), log_alpha = None,
                          dist_type = dist_type p_scores, samples = None,
                          sample_log_probs = None\<rparr>
             in bnd (aeq batch (d2_0 h_c2)) (\<lambda>_.
                bnd (aeq dim' (d2_1 h_c2)) (\<lambda>_.
                bnd (aeq batch (d2_0 c_align2)) (\<lambda>_.
                bnd (aeq sourceL (d2_1 c_align2)) (\<lambda>_.
                  Inr \<lparr>h_y = h_y2, h_c = h_c2, c_align_vectors = c_align2,
                       dist_info = \<lparr>info_q = q_out, info_p = p_out\<rparr>\<rparr>))))))"

text \<open>
  Lines 240-259: the promotion of a one-step query and the agreement of the sizes of
  query and memory bank with each other and with \<open>dim\<close>.
\<close>

definition input_checks ::
  "attention \<Rightarrow> query \<Rightarrow> real t3 \<Rightarrow> error + (bool \<times> real t3 \<times> q_seq option)" where
  "input_checks self qu memory_bank =
     bnd (one_step_input qu) (\<lambda>(one_step, input, q_scores).
       (let batch = d3_0 memory_bank; sourceL = d3_1 memory_bank; dim' = d3_2 memory_bank;
            batch' = d3_0 input; targetL = d3_1 input; dim'' = d3_2 input
        in bnd (aeq batch batch') (\<lambda>_.
           bnd (aeq dim' dim'') (\<lambda>_.
           bnd (aeq (dim self) dim') (\<lambda>_.
             Inr (one_step, input, q_scores))))))"

text \<open>
  Lines 261-357 of \<open>forward\<close>: the assertion of line 263, the deterministic path
  (\<open>c_align_vectors\<close>, \<open>p_scores\<close>, \<open>h_c\<close>), the samples and the sampled contexts
  (\<open>h_y\<close>), on a query that has its time axis. The result is
  (\<open>h_y\<close>, \<open>h_c\<close>, \<open>c_align_vectors\<close>, \<open>p_scores\<close>, \<open>q_sample\<close>, \<open>sample_log_probs\<close>).
\<close>

definition forward_body ::
  "attention \<Rightarrow> rnd \<Rightarrow> real t3 \<Rightarrow> q_seq option \<Rightarrow> real t3 \<Rightarrow> int t1 option
   \<Rightarrow> error + (real t4 \<times> fnum t3 \<times> fnum t3 \<times> p_seq \<times> real t4 option \<times> score t3 option)" where
  "forward_body self r input q_scores memory_bank memory_lengths =
     (let batch = d3_0 memory_bank; sourceL = d3_1 memory_bank; dim' = d3_2 memory_bank;
          targetL = d3_1 input
      in if p_dist_type self \<noteq> ''categorical'' then Inl AssertionError
         else
         bnd (prior self input memory_bank memory_lengths)
           (\<lambda>(c_align, p_scores, mask').
         bnd (bmm_f c_align memory_bank) (\<lambda>context_c.
         bnd (cat3 context_c (map3t Num input)) (\<lambda>concat_c.
         bnd (Linear3f (dim self * 2) (dim self) (linear_out self) concat_c) (\<lambda>lin_c.
         bnd (posterior_sample self r q_scores memory_lengths mask')
           (\<lambda>(y_align_vectors, q_sample, sample_log_probs').
         bnd (sampled_context self y_align_vectors memory_bank batch targetL sourceL dim')
           (\<lambda>context_y.
         bnd (expand_as (unsqueeze0 input) context_y) (\<lambda>input4.
         bnd (cat4 context_y input4) (\<lambda>concat_y.
         bnd (Linear4 (dim self * 2) (dim self) (linear_out self) concat_y) (\<lambda>lin_y.
           Inr (map4t tanh lin_y, map3t ftanh lin_c, c_align, p_scores, q_sample,
                sample_log_probs')))))))))))"

text \<open>
  \<open>forward\<close>: the checks of the inputs, the body, and the branch on the calling
  convention (lines 359-420): the one-step outputs, or the \<^verbatim>\<open>assert (False)\<close> that
  opens the full-sequence branch.
\<close>

definition forward ::
  "attention \<Rightarrow> rnd \<Rightarrow> query \<Rightarrow> real t3 \<Rightarrow> int t1 option \<Rightarrow> error + attention_output" where
  "forward self r qu memory_bank memory_lengths =
     bnd (input_checks self qu memory_bank) (\<lambda>(one_step, input, q_scores).
     bnd (forward_body self r input q_scores memory_bank memory_lengths)
       (\<lambda>(h_y', h_c', c_align, p_scores, q_sample, sample_log_probs').
        if one_step
        then one_step_output (d3_0 memory_bank) (d3_1 memory_bank) (d3_2 memory_bank)
               h_y' h_c' c_align q_scores p_scores q_sample sample_log_probs'
        else Inl AssertionError))"

subsection \<open>Vocabulary of the properties\<close>

text \<open>
  The two errors with which the code signals a distribution it does not support:
  \<^verbatim>\<open>raise Exception("Unsupported dist")\<close> in \<open>sample_attn\<close> and
  \<^verbatim>\<open>raise Exception("Buggy")\<close> in the \<^verbatim>\<open>log_normal\<close> branch of \<open>forward\<close>.
\<close>

definition unsupported_distribution :: "error \<Rightarrow> bool" where
  "unsupported_distribution e =
     (e = Exception ''Unsupported dist'' \<or> e = Exception ''Buggy'')"

text \<open>
  The draws are draws the categorical sampler can make: every drawn index is a
  position of positive probability under the parameters it was drawn from.
\<close>

definition draws_in_support :: "rnd \<Rightarrow> nat \<Rightarrow> real t2 \<Rightarrow> bool" where
  "draws_in_support r K a =
     all_below (\<lambda>k. all_below (\<lambda>n.
        categorical_sample r k n < d2_1 a \<and> 0 < el2 a n (categorical_sample r k n))
        (d2_0 a)) K"

text \<open>
  The entry \<open>[k, n, s]\<close> of the samples in the \<open>q\<close> bundle of the result of a call, if
  the call has returned one.
\<close>

definition q_sample_entry :: "error + attention_output \<Rightarrow> nat \<Rightarrow> nat \<Rightarrow> nat \<Rightarrow> real option" where
  "q_sample_entry res k n s =
     (case res of
        Inl _ \<Rightarrow> None
      | Inr out \<Rightarrow>
         (case info_q (dist_info out) of
            None \<Rightarrow> None
          | Some qo \<Rightarrow> map_option (\<lambda>smp. el3 smp k n s) (samples qo)))"



subsection \<open>A concrete call\<close>

text \<open>
  The scenario of the spec (section 8): batch 2, source length 3, dim 4, valid lengths
  [3, 2], five samples, a categorical posterior. The posterior is uniform over the
  three source positions of both examples, and every draw is the index 2.
\<close>

definition softplus :: "real \<Rightarrow> real" where
  "softplus x = ln (1 + exp x)"

definition ex_attention :: "string \<Rightarrow> string \<Rightarrow> attention" where
  "ex_attention p m =
     VariationalAttention_init 4 p ''categorical'' ''dirichlet'' False softplus 5 m ''mean''
       (\<lambda>c l. 1) (\<lambda>c l. 1)"

definition ex_memory :: "real t3" where
  "ex_memory = \<lparr>d3_0 = 2, d3_1 = 3, d3_2 = 4, el3 = (\<lambda>n s d. real (n + s + d))\<rparr>"

definition ex_input :: "real t2" where
  "ex_input = \<lparr>d2_0 = 2, d2_1 = 4, el2 = (\<lambda>n d. 1)\<rparr>"

definition ex_lengths :: "int t1" where
  "ex_lengths = \<lparr>d1_0 = 2, el1 = (\<lambda>n. if n = 0 then 3 else 2)\<rparr>"

definition ex_alpha :: "real t2" where
  "ex_alpha = \<lparr>d2_0 = 2, d2_1 = 3, el2 = (\<lambda>n s. 1 / 3)\<rparr>"

definition ex_q :: q_step where
  "ex_q = \<lparr>alpha = Some ex_alpha,
           log_alpha = Some (map2t (\<lambda>p. Fin (ln p)) ex_alpha),
           dist_type = ''categorical'', samples = None, sample_log_probs = None\<rparr>"

definition ex_q_seq :: q_seq where
  "ex_q_seq = \<lparr>alpha = Some (unsqueeze1 ex_alpha),
           log_alpha = Some (unsqueeze1 (map2t (\<lambda>p. Fin (ln p)) ex_alpha)),
           dist_type = ''categorical'', samples = None, sample_log_probs = None\<rparr>"

definition ex_rnd :: rnd where
  "ex_rnd = \<lparr>categorical_sample = (\<lambda>k row. 2), dirichlet_rsample = (\<lambda>k row s. 1 / 3)\<rparr>"

text \<open>
  A posterior that has no mass on the padding: uniform over the valid positions of
  each example. The draws of \<open>ex_rnd1\<close> are all the index 1.
\<close>

definition ex_alpha_masked :: "real t2" where
  "ex_alpha_masked =
     \<lparr>d2_0 = 2, d2_1 = 3,
      el2 = (\<lambda>n s. if int s < el1 ex_lengths n then 1 / real_of_int (el1 ex_lengths n) else 0)\<rparr>"

definition ex_q_masked :: q_step where
  "ex_q_masked = \<lparr>alpha = Some ex_alpha_masked,
           log_alpha = Some (map2t (\<lambda>p. if p = 0 then NegInf else Fin (ln p)) ex_alpha_masked),
           dist_type = ''categorical'', samples = None, sample_log_probs = None\<rparr>"

definition ex_rnd1 :: rnd where
  "ex_rnd1 = \<lparr>categorical_sample = (\<lambda>k row. 1), dirichlet_rsample = (\<lambda>k row s. 1 / 3)\<rparr>"

text \<open>
  Two other vectors of lengths for the same memory bank of source length 3: both
  examples of valid length 1, and a second example of valid length 0.
\<close>

definition ex_lengths_short :: "int t1" where
  "ex_lengths_short = \<lparr>d1_0 = 2, el1 = (\<lambda>n. 1)\<rparr>"

definition ex_lengths_empty :: "int t1" where
  "ex_lengths_empty = \<lparr>d1_0 = 2, el1 = (\<lambda>n. if n = 0 then 3 else 0)\<rparr>"

section \<open>Properties\<close>

subsection \<open>Results and checks\<close>

lemma bnd_Inl [simp]: "bnd (Inl e) f = Inl e"
  by (simp add: bnd_def)

lemma bnd_Inr [simp]: "bnd (Inr x) f = f x"
  by (simp add: bnd_def)

lemma bnd_eq_Inr_iff: "bnd m f = Inr y \<longleftrightarrow> (\<exists>x. m = Inr x \<and> f x = Inr y)"
  by (cases m) simp_all

lemma isl_bnd: "(\<And>x. isl (f x)) \<Longrightarrow> isl (bnd m f)"
  by (cases m) simp_all

lemma aeq_Inr_iff [simp]: "aeq a b = Inr u \<longleftrightarrow> a = b"
  by (simp add: aeq_def)

lemma all_below_iff: "all_below P n \<longleftrightarrow> (\<forall>i<n. P i)"
  by (induction n) (auto simp: less_Suc_eq)

lemma bi_less [simp]: "i < a \<Longrightarrow> bi a i = i"
  by (auto simp: bi_def)

lemma bi_one [simp]: "bi (Suc 0) i = 0"
  by (simp add: bi_def)

lemma expandable_refl [simp]: "expandable a a"
  by (simp add: expandable_def)

subsection \<open>What a tensor operation that returns has returned\<close>

lemma view_2_3_InrD:
  "view_2_3 x a b c = Inr y \<Longrightarrow> d3_0 y = a \<and> d3_1 y = b \<and> d3_2 y = c"
  by (auto simp: view_2_3_def split: if_splits)

lemma bmm_InrD:
  "bmm a b = Inr y \<Longrightarrow>
     d3_0 y = d3_0 a \<and> d3_1 y = d3_1 a \<and> d3_2 y = d3_2 b \<and> d3_0 a = d3_0 b
   \<and> d3_2 a = d3_1 b \<and> el3 y = (\<lambda>i j k. \<Sum>l<d3_2 a. el3 a i j l * el3 b i l k)"
  by (auto simp: bmm_def split: if_splits)

lemma masked_fill3_InrD:
  "masked_fill3 x m v = Inr y \<Longrightarrow>
     d3_0 y = d3_0 x \<and> d3_1 y = d3_1 x \<and> d3_2 y = d3_2 x
   \<and> expandable (d3_0 m) (d3_0 x) \<and> expandable (d3_1 m) (d3_1 x)
   \<and> expandable (d3_2 m) (d3_2 x)
   \<and> el3 y = (\<lambda>i j k. if el3 m (bi (d3_0 m) i) (bi (d3_1 m) j) (bi (d3_2 m) k)
                         then v else el3 x i j k)"
  by (auto simp: masked_fill3_def split: if_splits)




lemma sequence_mask_returns:
  "0 < d1_0 lengths \<Longrightarrow> 0 \<le> lengths_max lengths \<Longrightarrow>
     sequence_mask lengths =
       Inr \<lparr>d2_0 = d1_0 lengths, d2_1 = nat (lengths_max lengths),
            el2 = (\<lambda>b s. int s < el1 lengths b)\<rparr>"
  by (simp add: sequence_mask_def Let_def)


lemma cat4_InrD:
  "cat4 a b = Inr y \<Longrightarrow>
     d4_0 y = d4_0 a \<and> d4_1 y = d4_1 a \<and> d4_2 y = d4_2 a \<and> d4_3 y = d4_3 a + d4_3 b
   \<and> el4 y = (\<lambda>h i j k. if k < d4_3 a then el4 a h i j k else el4 b h i j (k - d4_3 a))"
  by (auto simp: cat4_def split: if_splits)

lemma Linear4_InrD:
  "Linear4 n_in n_out w x = Inr y \<Longrightarrow>
     d4_0 y = d4_0 x \<and> d4_1 y = d4_1 x \<and> d4_2 y = d4_2 x \<and> d4_3 y = n_out
   \<and> d4_3 x = n_in
   \<and> el4 y = (\<lambda>h i j c. \<Sum>l<n_in. w c l * el4 x h i j l)"
  by (auto simp: Linear4_def split: if_splits)

lemma expand_as_InrD:
  "expand_as x y = Inr z \<Longrightarrow>
     d4_0 z = d4_0 y \<and> d4_1 z = d4_1 y \<and> d4_2 z = d4_2 y \<and> d4_3 z = d4_3 y
   \<and> el4 z = (\<lambda>h i j l. el4 x (bi (d4_0 x) h) (bi (d4_1 x) i) (bi (d4_2 x) j)
                           (bi (d4_3 x) l))"
  by (auto simp: expand_as_def split: if_splits)

lemma view_3_4_InrD:
  "view_3_4 x a b c d = Inr y \<Longrightarrow>
     d4_0 y = a \<and> d4_1 y = b \<and> d4_2 y = c \<and> d4_3 y = d"
  by (auto simp: view_3_4_def split: if_splits)

subsection \<open>score\<close>

lemma score_InrD:
  assumes "score self h_t h_s = Inr sc"
  shows "d3_0 sc = d3_0 h_t \<and> d3_1 sc = d3_1 h_t \<and> d3_2 sc = d3_1 h_s"
proof -
  from assms obtain b c where
    "view_2_3 b (d3_0 h_t) (d3_1 h_t) (d3_2 h_t) = Inr c" "bmm c (transpose12 h_s) = Inr sc"
    unfolding score_def Let_def bnd_eq_Inr_iff by blast
  then show ?thesis
    using view_2_3_InrD bmm_InrD by (fastforce simp: transpose12_def)
qed

lemma score_returns:
  assumes "d3_0 h_s = d3_0 h_t" and "d3_2 h_s = d3_2 h_t" and "dim self = d3_2 h_s"
  shows "\<exists>sc. score self h_t h_s = Inr sc"
  using assms
  by (simp add: score_def aeq_def view_3_2_def Linear2_def view_2_3_def bmm_def transpose12_def
      Let_def)

subsection \<open>Softmax over a masked row\<close>






subsection \<open>What a stage of \<open>forward\<close> that returns has returned\<close>

lemma input_checks_InrD:
  assumes "input_checks self qu mb = Inr (os, input, qs)"
  shows "d3_0 input = d3_0 mb \<and> d3_2 input = d3_2 mb \<and> dim self = d3_2 mb
         \<and> one_step_input qu = Inr (os, input, qs)"
  using assms by (auto simp: input_checks_def bnd_eq_Inr_iff Let_def)

lemma input_checks_FullSeq:
  "input_checks self (FullSeq x q) mb = Inr (os, i, qq) \<Longrightarrow> \<not> os"
  by (auto simp: input_checks_def one_step_input_def bnd_eq_Inr_iff Let_def)

lemma one_step_input_OneStep:
  assumes "one_step_input (OneStep x qo) = Inr (os, input, qs)"
  shows "os \<and> input = unsqueeze1 x
     \<and> (qo = None \<longrightarrow> qs = None)
     \<and> (\<forall>q. qo = Some q \<longrightarrow> (\<exists>q3. qs = Some q3 \<and> dist_type q3 = dist_type q
           \<and> alpha q3 = map_option unsqueeze1 (alpha q)
           \<and> (alpha q \<noteq> None \<longrightarrow> log_alpha q3 = map_option unsqueeze1 (log_alpha q))))"
  using assms by (auto simp: one_step_input_def split: option.splits)

lemma prior_categorical_InrD:
  assumes "prior self input mb (Some lengths) = Inr (c, ps, m)"
    and "p_dist_type self = ''categorical''"
  shows "\<exists>sc sm masked. score self input mb = Inr sc
     \<and> sequence_mask lengths = Inr sm
     \<and> masked_fill3 (map3t Fin sc) (one_minus3 (unsqueeze1 sm)) NegInf = Inr masked
     \<and> c = softmax3 masked \<and> alpha ps = Some c"
  using assms
  by (auto simp: prior_def bnd_eq_Inr_iff Let_def)

lemma forward_body_InrD:
  assumes "forward_body self r input qs mb ml = Inr (hy, hc, c_align, ps, q_sample, slp)"
  shows "\<exists>mask' y context_y input4 concat_y lin_y.
           p_dist_type self = ''categorical''
         \<and> prior self input mb ml = Inr (c_align, ps, mask')
         \<and> posterior_sample self r qs ml mask' = Inr (y, q_sample, slp)
         \<and> sampled_context self y mb (d3_0 mb) (d3_1 input) (d3_1 mb) (d3_2 mb) = Inr context_y
         \<and> expand_as (unsqueeze0 input) context_y = Inr input4
         \<and> cat4 context_y input4 = Inr concat_y
         \<and> Linear4 (dim self * 2) (dim self) (linear_out self) concat_y = Inr lin_y
         \<and> hy = map4t tanh lin_y"
  using assms unfolding forward_body_def
  by (auto simp: bnd_eq_Inr_iff Let_def split: if_splits)

lemma one_step_output_InrD:
  assumes "one_step_output b s d hy hc ca qs ps qsm slp = Inr out"
  shows "h_y out = squeeze2 hy \<and> h_c out = squeeze1 hc \<and> c_align_vectors out = squeeze1 ca
       \<and> info_q (dist_info out) =
            (case qs of None \<Rightarrow> None
             | Some q \<Rightarrow> Some \<lparr>alpha = map_option squeeze1 (alpha q), log_alpha = None,
                             dist_type = dist_type q,
                             samples = map_option squeeze2 qsm,
                             sample_log_probs = map_option squeeze_last slp\<rparr>)"
  using assms
  by (auto simp: one_step_output_def bnd_eq_Inr_iff Let_def split: option.splits)

lemma forward_InrD:
  assumes "forward self r qu mb ml = Inr out"
  shows "\<exists>x qo qs hy hc c_align ps q_sample slp.
           qu = OneStep x qo
         \<and> input_checks self qu mb = Inr (True, unsqueeze1 x, qs)
         \<and> forward_body self r (unsqueeze1 x) qs mb ml = Inr (hy, hc, c_align, ps, q_sample, slp)
         \<and> one_step_output (d3_0 mb) (d3_1 mb) (d3_2 mb) hy hc c_align qs ps q_sample slp
             = Inr out"
proof -
  from assms obtain os input qs hy hc c_align ps q_sample slp where
    chk: "input_checks self qu mb = Inr (os, input, qs)"
    and body: "forward_body self r input qs mb ml = Inr (hy, hc, c_align, ps, q_sample, slp)"
    and os: "os"
    and out: "one_step_output (d3_0 mb) (d3_1 mb) (d3_2 mb) hy hc c_align qs ps q_sample slp
               = Inr out"
    unfolding forward_def by (auto simp: bnd_eq_Inr_iff split: if_splits)
  from chk os obtain x qo where qu: "qu = OneStep x qo"
    by (cases qu) (auto dest: input_checks_FullSeq)
  have "input = unsqueeze1 x"
    using input_checks_InrD [OF chk] one_step_input_OneStep unfolding qu by blast
  with chk body os out qu show ?thesis by auto
qed

subsection \<open>The stages of \<open>forward\<close> return on inputs of agreeing sizes\<close>

lemma prior_categorical_returns:
  assumes cat: "p_dist_type self = ''categorical''"
    and sc: "score self input mb = Inr sc"
    and ml: "\<And>l. ml = Some l \<Longrightarrow>
               d1_0 l = d3_0 mb \<and> 0 < d3_0 mb \<and> 0 \<le> lengths_max l
             \<and> expandable (nat (lengths_max l)) (d3_1 mb)"
  shows "\<exists>c ps m. prior self input mb ml = Inr (c, ps, m) \<and> alpha ps = Some c
           \<and> d3_0 c = d3_0 input \<and> d3_1 c = d3_1 input \<and> d3_2 c = d3_1 mb
           \<and> (ml = None \<longrightarrow> m = None)
           \<and> (ml \<noteq> None \<longrightarrow> m \<noteq> None)"
proof -
  note shp = score_InrD [OF sc]
  show ?thesis
  proof (cases ml)
    case None
    then show ?thesis
      using cat sc shp by (simp add: prior_def Let_def softmax3_def map3t_def)
  next
    case (Some l)
    have "d3_0 sc = d3_0 mb"
      using sc shp by (auto simp: score_def bnd_eq_Inr_iff Let_def)
    with ml [OF Some] have l: "d1_0 l = d3_0 sc" "0 < d1_0 l" "0 \<le> lengths_max l"
      "expandable (nat (lengths_max l)) (d3_2 sc)"
      using shp by simp_all
    show ?thesis
      using cat sc shp Some l(1,4)
      by (simp add: prior_def Let_def sequence_mask_returns [OF l(2,3)] softmax3_def map3t_def
          masked_fill3_def one_minus3_def unsqueeze1_def expandable_def)
  qed
qed

lemma deterministic_path_returns:
  assumes "d3_0 c = d3_0 mb" and "d3_2 c = d3_1 mb" and "d3_0 input = d3_0 c"
    and "d3_1 input = d3_1 c" and "d3_2 input = d3_2 mb" and "dim self = d3_2 mb"
  shows "\<exists>cc ccat lin. bmm_f c mb = Inr cc \<and> cat3 cc (map3t Num input) = Inr ccat
           \<and> Linear3f (dim self * 2) (dim self) (linear_out self) ccat = Inr lin
           \<and> d3_0 lin = d3_0 mb \<and> d3_1 lin = d3_1 input \<and> d3_2 lin = dim self"
  using assms by (simp add: bmm_f_def cat3_def Linear3f_def map3t_def)

lemma sample_attn_categorical_InrD:
  assumes "sample_attn r ps K lengths m = Inr res" and "dist_type ps = ''categorical''"
  shows "\<exists>a la. alpha ps = Some a \<and> log_alpha ps = Some la
     \<and> (\<forall>k<K. \<forall>n<d3_0 a. \<forall>t<d3_1 a. categorical_sample r k (n * d3_1 a + t) < d3_2 a)
     \<and> expandable (d3_0 la) (d3_0 a) \<and> expandable (d3_1 la) (d3_1 a)
     \<and> expandable (d3_2 la) (d3_2 a)
     \<and> res = (\<lparr>d4_0 = K, d4_1 = d3_0 a, d4_2 = d3_1 a, d4_3 = d3_2 a,
               el4 = (\<lambda>k n t s. if s = categorical_sample r k (n * d3_1 a + t) then 1 else 0)\<rparr>,
              Some \<lparr>d3_0 = K, d3_1 = d3_0 a, d3_2 = d3_1 a,
                el3 = (\<lambda>k n t. el3 la (bi (d3_0 la) n) (bi (d3_1 la) t)
                         (bi (d3_2 la) (categorical_sample r k (n * d3_1 a + t))))\<rparr>)"
  using assms
  by (auto simp: sample_attn_def Let_def all_below_iff split: option.splits if_splits)

lemma sample_attn_categorical_returns:
  assumes "dist_type ps = ''categorical''" and "alpha ps = Some a" and "log_alpha ps = Some la"
    and "d3_0 la = d3_0 a" and "d3_1 la = d3_1 a" and "d3_2 la = d3_2 a"
    and "\<forall>k<K. \<forall>n<d3_0 a. \<forall>t<d3_1 a. categorical_sample r k (n * d3_1 a + t) < d3_2 a"
  shows "\<exists>res. sample_attn r ps K lengths m = Inr res"
  using assms by (simp add: sample_attn_def Let_def all_below_iff)

lemma view_m1_4_3_returns:
  assumes "0 < a * b" and "d4_2 x * d4_3 x = a * b"
  shows "\<exists>y. view_m1_4_3 x a b = Inr y \<and> d3_0 y = d4_0 x * d4_1 x \<and> d3_1 y = a \<and> d3_2 y = b"
proof -
  let ?t = "d4_0 x * d4_1 x * d4_2 x * d4_3 x"
  have eq: "?t = (d4_0 x * d4_1 x) * (a * b)"
    by (simp only: mult.assoc assms(2))
  have m: "?t mod (a * b) = 0"
    by (simp only: eq mod_mult_self2_is_0)
  have d: "?t div (a * b) = d4_0 x * d4_1 x"
    using assms(1) by (simp only: eq) simp
  show ?thesis
    using assms(1) m d by (simp add: view_m1_4_3_def Let_def del: mult_eq_0_iff)
qed

lemma sampled_context_returns:
  assumes "d4_0 y = n_samples self" and "d4_1 y = d3_0 mb" and "d4_2 y = T"
    and "d4_3 y = d3_1 mb" and "0 < T" and "0 < d3_1 mb" and "0 < d3_2 mb"
  shows "\<exists>c. sampled_context self (Some y) mb (d3_0 mb) T (d3_1 mb) (d3_2 mb) = Inr c
           \<and> d4_0 c = n_samples self \<and> d4_1 c = d3_0 mb \<and> d4_2 c = T \<and> d4_3 c = d3_2 mb"
proof -
  from view_m1_4_3_returns [of T "d3_1 mb" y] assms obtain y3 where
    y3: "view_m1_4_3 y T (d3_1 mb) = Inr y3" "d3_0 y3 = n_samples self * d3_0 mb"
        "d3_1 y3 = T" "d3_2 y3 = d3_1 mb"
    by auto
  let ?m = "repeat0 (n_samples self) (unsqueeze0 mb)"
  from view_m1_4_3_returns [of "d3_1 mb" "d3_2 mb" ?m] assms obtain m3 where
    m3: "view_m1_4_3 ?m (d3_1 mb) (d3_2 mb) = Inr m3" "d3_0 m3 = n_samples self * d3_0 mb"
        "d3_1 m3 = d3_1 mb" "d3_2 m3 = d3_2 mb"
    by (auto simp: repeat0_def unsqueeze0_def)
  show ?thesis
    using y3 m3 by (simp add: sampled_context_def bmm_def view_3_4_def)
qed

lemma sampled_context_enum:
  "sampled_context self None mb N T S D = Inr c \<longleftrightarrow>
     c = \<lparr>d4_0 = d3_1 mb, d4_1 = d3_0 mb, d4_2 = T, d4_3 = d3_2 mb,
          el4 = (\<lambda>s n t d. el3 mb n s d)\<rparr>"
  by (auto simp: sampled_context_def permute2103_def repeat0_def unsqueeze0_def)

lemma sampled_path_returns:
  assumes "d4_1 c = d3_0 input" and "d4_2 c = d3_1 input" and "d4_3 c = d3_2 input"
    and "dim self = d3_2 input"
  shows "\<exists>i4 ccat lin. expand_as (unsqueeze0 input) c = Inr i4 \<and> cat4 c i4 = Inr ccat
           \<and> Linear4 (dim self * 2) (dim self) (linear_out self) ccat = Inr lin
           \<and> d4_0 lin = d4_0 c \<and> d4_1 lin = d4_1 c \<and> d4_2 lin = d4_2 c
           \<and> d4_3 lin = dim self"
  using assms by (simp add: expand_as_def unsqueeze0_def cat4_def Linear4_def expandable_def)

lemma one_step_output_returns:
  assumes "alpha ps = Some pa" and "d3_0 hc = b" and "d3_2 hc = d" and "d3_0 ca = b"
    and "d3_2 ca = s"
  shows "\<exists>out. one_step_output b s d hy hc ca qs ps qsm slp = Inr out"
  using assms by (simp add: one_step_output_def Let_def squeeze1_def aeq_def)

lemmas ex_defs = ex_attention_def ex_memory_def ex_input_def ex_lengths_def ex_alpha_def
  ex_q_def ex_q_seq_def ex_rnd_def VariationalAttention_init_def

lemma ex_input_checks:
  "input_checks (ex_attention p m) (OneStep ex_input qo) ex_memory =
     one_step_input (OneStep ex_input qo)"
  by (auto simp: input_checks_def ex_defs one_step_input_def unsqueeze1_def aeq_def
      split: option.splits)

lemma ex_input_checks_Some:
  "input_checks (ex_attention p m) (OneStep ex_input (Some ex_q)) ex_memory =
     Inr (True, unsqueeze1 ex_input, Some ex_q_seq)"
  by (simp add: ex_input_checks one_step_input_def ex_q_def ex_q_seq_def)

lemma ex_input_checks_None:
  "input_checks (ex_attention p m) (OneStep ex_input None) ex_memory =
     Inr (True, unsqueeze1 ex_input, None)"
  by (simp add: ex_input_checks one_step_input_def)

lemma ex_input_checks_FullSeq:
  "input_checks (ex_attention p m) (FullSeq (unsqueeze1 ex_input) qo) ex_memory =
     Inr (False, unsqueeze1 ex_input, qo)"
  by (simp add: input_checks_def ex_defs one_step_input_def unsqueeze1_def aeq_def)

lemma ex_fields [simp]:
  "p_dist_type (ex_attention p m) = p" "mode (ex_attention p m) = m"
  "dim (ex_attention p m) = 4" "n_samples (ex_attention p m) = 5"
  "\<not> use_prior (ex_attention p m)" "linear_out (ex_attention p m) = (\<lambda>c l. 1)"
  by (simp_all add: ex_defs)

lemma ex_lengths_max [simp]:
  "lengths_max ex_lengths = 3" "lengths_max ex_lengths_short = 1"
  "lengths_max ex_lengths_empty = 3"
  by (simp_all add: lengths_max_def ex_lengths_def ex_lengths_short_def ex_lengths_empty_def)

subsection \<open>The assertion of line 263\<close>

lemma forward_body_not_categorical:
  "p_dist_type self \<noteq> ''categorical'' \<Longrightarrow>
     forward_body self r input qs mb ml = Inl AssertionError"
  by (simp add: forward_body_def Let_def)

lemma forward_not_categorical:
  assumes "p_dist_type self \<noteq> ''categorical''"
  shows "forward self r qu mb ml = bnd (input_checks self qu mb) (\<lambda>_. Inl AssertionError)"
  using assms
  by (cases "input_checks self qu mb")
     (simp_all add: forward_def forward_body_not_categorical split: prod.splits)

lemma input_checks_errors:
  "input_checks self qu mb = Inl e \<Longrightarrow> e = AttributeError \<or> e = ShapeMismatch"
  by (auto simp: input_checks_def one_step_input_def bnd_def aeq_def Let_def
      split: query.splits option.splits if_splits sum.splits)

subsection \<open>The attribute \<open>q_dist_tyqe\<close> is never read\<close>

lemma score_q_dist_tyqe [simp]: "score (self\<lparr>q_dist_tyqe := x\<rparr>) = score self"
  by (rule ext)+ (simp add: score_def)

lemma prior_q_dist_tyqe [simp]: "prior (self\<lparr>q_dist_tyqe := x\<rparr>) = prior self"
  by (rule ext)+ (simp add: prior_def Let_def cong: option.case_cong if_cong)

lemma forward_body_q_dist_tyqe [simp]:
  "forward_body (self\<lparr>q_dist_tyqe := x\<rparr>) = forward_body self"
  by (rule ext)+
     (simp add: forward_body_def posterior_sample_def sampled_context_def Let_def
        cong: option.case_cong if_cong prod.case_cong)

lemma forward_q_dist_tyqe: "forward (self\<lparr>q_dist_tyqe := x\<rparr>) = forward self"
  by (rule ext)+ (simp add: forward_def input_checks_def Let_def)

text \<open>
  C10. Two components built by the constructor from the same arguments but for
  \<open>q_dist_type\<close> (and with the same initial weights) have the same \<open>forward\<close>: the same
  result on every input and every random draw. The constructor stores the argument
  under \<^verbatim>\<open>q_dist_tyqe\<close>, which nothing reads; the sampling dispatches on the
  \<open>dist_type\<close> of the bundle \<open>q_scores\<close>.
\<close>

theorem forward_ignores_q_dist_type:
  "forward (VariationalAttention_init d p q1 e u f n m i w_in w_out) r qu mb ml =
   forward (VariationalAttention_init d p q2 e u f n m i w_in w_out) r qu mb ml"
proof -
  have "VariationalAttention_init d p q1 e u f n m i w_in w_out =
        (VariationalAttention_init d p q2 e u f n m i w_in w_out)\<lparr>q_dist_tyqe := q1\<rparr>"
    by (simp add: VariationalAttention_init_def)
  then show ?thesis by (simp only: forward_q_dist_tyqe)
qed

theorem forward_ignores_q_dist_type_witness:
  "forward (VariationalAttention_init 4 ''categorical'' ''dirichlet'' ''dirichlet'' False
             softplus 5 ''sample'' ''mean'' (\<lambda>c l. 1) (\<lambda>c l. 1))
     ex_rnd (OneStep ex_input (Some ex_q)) ex_memory (Some ex_lengths) =
   forward (VariationalAttention_init 4 ''categorical'' ''categorical'' ''dirichlet'' False
             softplus 5 ''sample'' ''mean'' (\<lambda>c l. 1) (\<lambda>c l. 1))
     ex_rnd (OneStep ex_input (Some ex_q)) ex_memory (Some ex_lengths)"
  by (rule forward_ignores_q_dist_type)



text \<open>
  C5 (as amended). On a component with \<open>p_dist_type\<close> \<^verbatim>\<open>"log_normal"\<close> every call of
  \<open>forward\<close> fails before any score is computed, and with none of the errors that
  signal an unsupported distribution: a call whose inputs pass the checks of lines
  240-259 fails the assertion of line 263, and the \<^verbatim>\<open>raise Exception("Buggy")\<close> of the
  \<^verbatim>\<open>log_normal\<close> branch behind it is never reached.
\<close>

theorem forward_log_normal:
  assumes "p_dist_type self = ''log_normal''"
  shows "isl (forward self r qu mb ml)
       \<and> (\<forall>e. forward self r qu mb ml = Inl e \<longrightarrow> \<not> unsupported_distribution e)
       \<and> (\<forall>x. input_checks self qu mb = Inr x
              \<longrightarrow> forward self r qu mb ml = Inl AssertionError)"
proof -
  have nc: "p_dist_type self \<noteq> ''categorical''" using assms by simp
  show ?thesis
  proof (cases "input_checks self qu mb")
    case (Inl e)
    with input_checks_errors [OF Inl] show ?thesis
      by (auto simp: forward_not_categorical [OF nc] unsupported_distribution_def)
  next
    case (Inr x)
    then show ?thesis
      by (simp add: forward_not_categorical [OF nc] unsupported_distribution_def)
  qed
qed

theorem forward_log_normal_witness:
  "forward (ex_attention ''log_normal'' ''sample'') ex_rnd (OneStep ex_input (Some ex_q))
     ex_memory None = Inl AssertionError"
  using forward_log_normal [of "ex_attention ''log_normal'' ''sample''" ex_rnd
      "OneStep ex_input (Some ex_q)" ex_memory None]
  by (auto simp: ex_input_checks_Some)

theorem forward_log_normal_counterexample:
  "forward (ex_attention ''log_normal'' ''sample'') ex_rnd (OneStep ex_input (Some ex_q))
     ex_memory (Some ex_lengths) = Inl AssertionError
   \<and> \<not> unsupported_distribution AssertionError"
  by (simp add: forward_not_categorical ex_input_checks_Some unsupported_distribution_def)

text \<open>
  C7. \<open>sample_attn\<close> on a bundle of \<open>dist_type\<close> \<^verbatim>\<open>"none"\<close> does not return: after
  \<^verbatim>\<open>pass\<close> it reads \<^verbatim>\<open>attns\<close>, which was never assigned.
\<close>

theorem sample_attn_none_unbound:
  "sample_attn r \<lparr>alpha = a, log_alpha = la, dist_type = ''none'', samples = sm,
                  sample_log_probs = lp\<rparr> K lengths m = Inl UnboundLocalError"
  by (simp add: sample_attn_def)

lemma sample_attn_unsupported:
  assumes "dist_type ps \<noteq> ''dirichlet''" and "dist_type ps \<noteq> ''categorical''"
    and "dist_type ps \<noteq> ''none''"
  shows "sample_attn r ps K lengths m = Inl (Exception ''Unsupported dist'')"
  using assms by (simp add: sample_attn_def)

subsection \<open>The sizes of what \<open>forward\<close> computes\<close>

lemma prior_categorical_sizes:
  assumes "prior self input mb ml = Inr (c, ps, m)" and "p_dist_type self = ''categorical''"
  shows "alpha ps = Some c \<and> d3_0 c = d3_0 input \<and> d3_1 c = d3_1 input \<and> d3_2 c = d3_1 mb"
proof (cases ml)
  case None
  with assms obtain sc where "score self input mb = Inr sc" "c = softmax3 (map3t Fin sc)"
    "alpha ps = Some c"
    by (auto simp: prior_def bnd_eq_Inr_iff Let_def)
  then show ?thesis
    using score_InrD by (fastforce simp: softmax3_def map3t_def)
next
  case (Some l)
  with prior_categorical_InrD assms obtain sc sm masked where
    "score self input mb = Inr sc"
    "masked_fill3 (map3t Fin sc) (one_minus3 (unsqueeze1 sm)) NegInf = Inr masked"
    "c = softmax3 masked" "alpha ps = Some c"
    by blast
  then show ?thesis
    using score_InrD masked_fill3_InrD by (fastforce simp: softmax3_def map3t_def)
qed

lemma posterior_sample_InrD:
  assumes "posterior_sample self r qs ml m = Inr (y, qsm, slp)"
  shows "(mode self = ''sample'' \<and> y = qsm
          \<and> (\<exists>q smp. qs = Some q \<and> dist_type q = ''categorical'' \<and> qsm = Some smp
                \<and> sample_attn r q (n_samples self) ml
                     (case ml of None \<Rightarrow> None | Some _ \<Rightarrow> m) = Inr (smp, slp)))
       \<or> (mode self = ''enum'' \<and> mode self \<noteq> ''sample'' \<and> y = None \<and> qsm = None
          \<and> slp = None)"
  using assms
  by (auto simp: posterior_sample_def bnd_eq_Inr_iff split: if_splits option.splits)

lemma posterior_sample_other_mode:
  "mode self \<noteq> ''sample'' \<Longrightarrow> mode self \<noteq> ''enum'' \<Longrightarrow>
     posterior_sample self r qs ml m = Inl UnboundLocalError"
  by (simp add: posterior_sample_def)

lemma sampled_context_sizes:
  assumes "sampled_context self y mb (d3_0 mb) T (d3_1 mb) (d3_2 mb) = Inr c"
  shows "d4_0 c = (if y = None then d3_1 mb else n_samples self)
       \<and> d4_1 c = d3_0 mb \<and> d4_2 c = T \<and> d4_3 c = d3_2 mb"
proof (cases y)
  case None
  with assms show ?thesis by (simp add: sampled_context_enum)
next
  case (Some a)
  with assms obtain b where "view_3_4 b (n_samples self) (d3_0 mb) T (d3_2 mb) = Inr c"
    by (auto simp: sampled_context_def bnd_eq_Inr_iff)
  with Some show ?thesis using view_3_4_InrD by fastforce
qed

lemma forward_body_sizes:
  assumes body: "forward_body self r input qs mb ml = Inr (hy, hc, c, ps, qsm, slp)"
    and chk: "d3_0 input = d3_0 mb" "dim self = d3_2 mb"
  shows "alpha ps = Some c"
    and "d3_0 c = d3_0 mb \<and> d3_1 c = d3_1 input \<and> d3_2 c = d3_1 mb"
    and "d3_0 hc = d3_0 mb \<and> d3_1 hc = d3_1 input \<and> d3_2 hc = d3_2 mb"
    and "d4_0 hy = (if mode self = ''sample'' then n_samples self else d3_1 mb)
       \<and> d4_1 hy = d3_0 mb \<and> d4_2 hy = d3_1 input \<and> d4_3 hy = d3_2 mb"
proof -
  from body obtain m cc ccat lin_c where
    cat: "p_dist_type self = ''categorical''"
    and pr: "prior self input mb ml = Inr (c, ps, m)"
    and cc: "bmm_f c mb = Inr cc" "cat3 cc (map3t Num input) = Inr ccat"
      "Linear3f (dim self * 2) (dim self) (linear_out self) ccat = Inr lin_c"
      "hc = map3t ftanh lin_c"
    unfolding forward_body_def by (auto simp: bnd_eq_Inr_iff Let_def split: if_splits)
  note ps = prior_categorical_sizes [OF pr cat]
  from ps show "alpha ps = Some c" by simp
  from ps chk show "d3_0 c = d3_0 mb \<and> d3_1 c = d3_1 input \<and> d3_2 c = d3_1 mb" by simp
  from cc ps chk show "d3_0 hc = d3_0 mb \<and> d3_1 hc = d3_1 input \<and> d3_2 hc = d3_2 mb"
    by (auto simp: bmm_f_def cat3_def Linear3f_def map3t_def split: if_splits)
  from forward_body_InrD [OF body] obtain m' y ctx i4 ccat4 lin where
    po: "posterior_sample self r qs ml m' = Inr (y, qsm, slp)"
    and sc: "sampled_context self y mb (d3_0 mb) (d3_1 input) (d3_1 mb) (d3_2 mb) = Inr ctx"
    and rest: "expand_as (unsqueeze0 input) ctx = Inr i4" "cat4 ctx i4 = Inr ccat4"
      "Linear4 (dim self * 2) (dim self) (linear_out self) ccat4 = Inr lin"
      "hy = map4t tanh lin"
    by blast
  have y: "(y = None) = (mode self \<noteq> ''sample'')"
    using posterior_sample_InrD [OF po] by auto
  have "d4_0 lin = d4_0 ctx \<and> d4_1 lin = d4_1 ctx \<and> d4_2 lin = d4_2 ctx \<and> d4_3 lin = dim self"
    using Linear4_InrD [OF rest(3)] cat4_InrD [OF rest(2)] by simp
  then show "d4_0 hy = (if mode self = ''sample'' then n_samples self else d3_1 mb)
       \<and> d4_1 hy = d3_0 mb \<and> d4_2 hy = d3_1 input \<and> d4_3 hy = d3_2 mb"
    using sampled_context_sizes [OF sc] y chk rest(4) by (simp add: map4t_def)
qed

subsection \<open>\<open>forward\<close> returns on a one-step call of agreeing sizes\<close>

lemma forward_body_returns_sample:
  assumes cat: "p_dist_type self = ''categorical''"
    and md: "mode self = ''sample''" and up: "\<not> use_prior self"
    and q: "dist_type q = ''categorical''" "alpha q = Some a" "log_alpha q = Some la"
    and la: "d3_0 la = d3_0 a" "d3_1 la = d3_1 a" "d3_2 la = d3_2 a"
    and a: "d3_0 a = d3_0 mb" "d3_1 a = d3_1 input" "d3_2 a = d3_1 mb"
    and inp: "d3_0 input = d3_0 mb" "d3_2 input = d3_2 mb" "dim self = d3_2 mb"
    and ml: "\<And>l. ml = Some l \<Longrightarrow>
               d1_0 l = d3_0 mb \<and> 0 < d3_0 mb \<and> 0 \<le> lengths_max l
             \<and> expandable (nat (lengths_max l)) (d3_1 mb)"
    and pos: "0 < d3_1 input" "0 < d3_1 mb" "0 < d3_2 mb"
    and draws: "\<forall>k<n_samples self. \<forall>n<d3_0 a. \<forall>t<d3_1 a.
                  categorical_sample r k (n * d3_1 a + t) < d3_2 a"
  shows "\<exists>res. forward_body self r input (Some q) mb ml = Inr res"
proof -
  from score_returns [of mb input self] inp obtain sc where
    sc: "score self input mb = Inr sc" by auto
  from prior_categorical_returns [OF cat sc ml] obtain c ps m where
    pr: "prior self input mb ml = Inr (c, ps, m)"
    and c: "d3_0 c = d3_0 input" "d3_1 c = d3_1 input" "d3_2 c = d3_1 mb"
    by blast
  from deterministic_path_returns [of c mb input self] c inp obtain cc ccat lin where
    det: "bmm_f c mb = Inr cc" "cat3 cc (map3t Num input) = Inr ccat"
      "Linear3f (dim self * 2) (dim self) (linear_out self) ccat = Inr lin"
    by auto
  let ?m = "case ml of None \<Rightarrow> None | Some _ \<Rightarrow> m"
  from sample_attn_categorical_returns [OF q la draws] obtain res where
    res: "sample_attn r q (n_samples self) ml ?m = Inr res" by blast
  from sample_attn_categorical_InrD [OF res q(1)] q(2) obtain smp slp where
    smp: "res = (smp, slp)" "d4_0 smp = n_samples self" "d4_1 smp = d3_0 a"
      "d4_2 smp = d3_1 a" "d4_3 smp = d3_2 a"
    by auto
  have po: "posterior_sample self r (Some q) ml m = Inr (Some smp, Some smp, slp)"
    using md up q(1) res smp(1) by (simp add: posterior_sample_def)
  from sampled_context_returns [of smp self mb "d3_1 input"] smp a pos obtain ctx where
    ctx: "sampled_context self (Some smp) mb (d3_0 mb) (d3_1 input) (d3_1 mb) (d3_2 mb)
            = Inr ctx"
      "d4_1 ctx = d3_0 mb" "d4_2 ctx = d3_1 input" "d4_3 ctx = d3_2 mb"
    by auto
  from sampled_path_returns [of ctx input self] ctx inp obtain i4 ccat4 lin4 where
    sp: "expand_as (unsqueeze0 input) ctx = Inr i4" "cat4 ctx i4 = Inr ccat4"
      "Linear4 (dim self * 2) (dim self) (linear_out self) ccat4 = Inr lin4"
    by auto
  show ?thesis
    using cat pr det po ctx(1) sp by (simp add: forward_body_def Let_def)
qed

lemma forward_body_returns_enum:
  assumes cat: "p_dist_type self = ''categorical''"
    and md: "mode self = ''enum''"
    and inp: "d3_0 input = d3_0 mb" "d3_2 input = d3_2 mb" "dim self = d3_2 mb"
    and ml: "\<And>l. ml = Some l \<Longrightarrow>
               d1_0 l = d3_0 mb \<and> 0 < d3_0 mb \<and> 0 \<le> lengths_max l
             \<and> expandable (nat (lengths_max l)) (d3_1 mb)"
  shows "\<exists>res. forward_body self r input qs mb ml = Inr res"
proof -
  from score_returns [of mb input self] inp obtain sc where
    sc: "score self input mb = Inr sc" by auto
  from prior_categorical_returns [OF cat sc ml] obtain c ps m where
    pr: "prior self input mb ml = Inr (c, ps, m)"
    and c: "d3_0 c = d3_0 input" "d3_1 c = d3_1 input" "d3_2 c = d3_1 mb"
    by blast
  from deterministic_path_returns [of c mb input self] c inp obtain cc ccat lin where
    det: "bmm_f c mb = Inr cc" "cat3 cc (map3t Num input) = Inr ccat"
      "Linear3f (dim self * 2) (dim self) (linear_out self) ccat = Inr lin"
    by auto
  have po: "posterior_sample self r qs ml m = Inr (None, None, None)"
    using md by (simp add: posterior_sample_def)
  let ?ctx = "\<lparr>d4_0 = d3_1 mb, d4_1 = d3_0 mb, d4_2 = d3_1 input, d4_3 = d3_2 mb,
          el4 = (\<lambda>s n t d. el3 mb n s d)\<rparr>"
  have ctx: "sampled_context self None mb (d3_0 mb) (d3_1 input) (d3_1 mb) (d3_2 mb)
               = Inr ?ctx"
    by (simp add: sampled_context_enum)
  from sampled_path_returns [of ?ctx input self] inp obtain i4 ccat4 lin4 where
    sp: "expand_as (unsqueeze0 input) ?ctx = Inr i4" "cat4 ?ctx i4 = Inr ccat4"
      "Linear4 (dim self * 2) (dim self) (linear_out self) ccat4 = Inr lin4"
    by auto
  show ?thesis
    using cat pr det po ctx sp by (simp add: forward_body_def Let_def)
qed

lemma forward_returns:
  assumes chk: "input_checks self (OneStep x qo) mb = Inr (True, unsqueeze1 x, qs)"
    and body: "forward_body self r (unsqueeze1 x) qs mb ml = Inr res"
  shows "\<exists>out. forward self r (OneStep x qo) mb ml = Inr out"
proof -
  obtain hy hc c ps qsm slp where res: "res = (hy, hc, c, ps, qsm, slp)"
    by (cases res) auto
  note chkD = input_checks_InrD [OF chk]
  note sz = forward_body_sizes [OF body [unfolded res]]
  from chkD have 1: "d3_0 (unsqueeze1 x) = d3_0 mb" "dim self = d3_2 mb" by simp_all
  from one_step_output_returns [of ps c hc "d3_0 mb" "d3_2 mb" c "d3_1 mb"]
    sz(1) [OF 1] sz(2) [OF 1] sz(3) [OF 1]
  obtain out where
    "one_step_output (d3_0 mb) (d3_1 mb) (d3_2 mb) hy hc c qs ps qsm slp = Inr out"
    by blast
  then show ?thesis
    using chk body res by (simp add: forward_def)
qed

lemma forward_full_sequence:
  assumes chk: "input_checks self (FullSeq x qo) mb = Inr (False, x, qo)"
    and body: "forward_body self r x qo mb ml = Inr res"
  shows "forward self r (FullSeq x qo) mb ml = Inl AssertionError"
  using chk body by (simp add: forward_def split: prod.splits)

lemma isl_forward_FullSeq: "isl (forward self r (FullSeq x q) mb ml)"
proof (cases "input_checks self (FullSeq x q) mb")
  case (Inl e)
  then show ?thesis by (simp add: forward_def)
next
  case (Inr t)
  obtain os i qq where t: "t = (os, i, qq)" by (cases t)
  with Inr have "\<not> os" using input_checks_FullSeq by blast
  with Inr t show ?thesis
    by (auto simp: forward_def split: prod.splits intro!: isl_bnd)
qed

subsection \<open>The concrete call returns\<close>

lemma ex_forward_body_sample:
  "\<exists>res. forward_body (ex_attention ''categorical'' ''sample'') ex_rnd (unsqueeze1 ex_input)
            (Some ex_q_seq) ex_memory (Some l) = Inr res"
  if "d1_0 l = 2" "0 \<le> lengths_max l" "expandable (nat (lengths_max l)) 3"
  by (rule forward_body_returns_sample
        [where a = "unsqueeze1 ex_alpha"
           and la = "unsqueeze1 (map2t (\<lambda>p. Fin (ln p)) ex_alpha)"])
     (simp_all add: that ex_q_seq_def ex_alpha_def ex_memory_def ex_input_def ex_rnd_def
        unsqueeze1_def map2t_def)

lemma ex_forward_sample_lengths:
  "\<exists>out. forward (ex_attention ''categorical'' ''sample'') ex_rnd
            (OneStep ex_input (Some ex_q)) ex_memory (Some l) = Inr out"
  if "d1_0 l = 2" "0 \<le> lengths_max l" "expandable (nat (lengths_max l)) 3"
proof -
  from ex_forward_body_sample [OF that] obtain res where
    "forward_body (ex_attention ''categorical'' ''sample'') ex_rnd (unsqueeze1 ex_input)
       (Some ex_q_seq) ex_memory (Some l) = Inr res" ..
  with ex_input_checks_Some show ?thesis by (rule forward_returns)
qed

lemma ex_forward_sample:
  "\<exists>out. forward (ex_attention ''categorical'' ''sample'') ex_rnd
            (OneStep ex_input (Some ex_q)) ex_memory (Some ex_lengths) = Inr out"
  by (rule ex_forward_sample_lengths)
     (simp_all add: ex_lengths_def lengths_max_def expandable_def)

lemma ex_forward_enum:
  "\<exists>out. forward (ex_attention ''categorical'' ''enum'') ex_rnd
            (OneStep ex_input None) ex_memory (Some ex_lengths) = Inr out"
proof -
  have "\<exists>res. forward_body (ex_attention ''categorical'' ''enum'') ex_rnd (unsqueeze1 ex_input)
            None ex_memory (Some ex_lengths) = Inr res"
    by (rule forward_body_returns_enum)
       (simp_all add: ex_memory_def ex_input_def ex_lengths_def unsqueeze1_def
          lengths_max_def expandable_def)
  then obtain res where
    "forward_body (ex_attention ''categorical'' ''enum'') ex_rnd (unsqueeze1 ex_input)
            None ex_memory (Some ex_lengths) = Inr res" ..
  with ex_input_checks_None show ?thesis by (rule forward_returns)
qed

subsection \<open>The deterministic attention weights\<close>






subsection \<open>The two calling conventions\<close>

lemma forward_one_step_sizes:
  assumes ret: "forward self r (OneStep x q) mb ml = Inr out"
  shows "d2_0 (h_c out) = d3_0 mb \<and> d2_1 (h_c out) = d3_2 mb
       \<and> d2_0 (c_align_vectors out) = d3_0 mb \<and> d2_1 (c_align_vectors out) = d3_1 mb
       \<and> d3_0 (h_y out) = (if mode self = ''sample'' then n_samples self else d3_1 mb)
       \<and> d3_1 (h_y out) = d3_0 mb \<and> d3_2 (h_y out) = d3_2 mb"
proof -
  from forward_InrD [OF ret] obtain x' qo qs hy hc c ps qsm slp where
    chk: "input_checks self (OneStep x q) mb = Inr (True, unsqueeze1 x', qs)"
    and body: "forward_body self r (unsqueeze1 x') qs mb ml = Inr (hy, hc, c, ps, qsm, slp)"
    and out: "one_step_output (d3_0 mb) (d3_1 mb) (d3_2 mb) hy hc c qs ps qsm slp = Inr out"
    by blast
  from input_checks_InrD [OF chk] have
    1: "d3_0 (unsqueeze1 x') = d3_0 mb" "dim self = d3_2 mb" by simp_all
  note sz = forward_body_sizes(2-4) [OF body 1]
  from one_step_output_InrD [OF out] have
    "h_y out = squeeze2 hy" "h_c out = squeeze1 hc" "c_align_vectors out = squeeze1 c"
    by simp_all
  with sz show ?thesis by (simp add: squeeze1_def squeeze2_def)
qed

text \<open>
  C4 (as amended). A call of \<open>forward\<close> in full-sequence form never returns: its
  branch opens with \<^verbatim>\<open>assert (False)\<close>. Only the one-step form returns, and then
  \<open>h_c\<close> has the sizes (batch, dim), \<open>c_align_vectors\<close> the sizes (batch, source_len)
  and \<open>h_y\<close> the sizes (K, batch, dim), where K is \<open>n_samples\<close> in mode
  \<^verbatim>\<open>"sample"\<close> and the source length in mode \<^verbatim>\<open>"enum"\<close>.
\<close>

theorem forward_calling_conventions:
  "isl (forward self r (FullSeq x3 q3) mb ml)
   \<and> (forward self r (OneStep x q) mb ml = Inr out \<longrightarrow>
        d2_0 (h_c out) = d3_0 mb \<and> d2_1 (h_c out) = d3_2 mb
      \<and> d2_0 (c_align_vectors out) = d3_0 mb \<and> d2_1 (c_align_vectors out) = d3_1 mb
      \<and> d3_0 (h_y out) = (if mode self = ''sample'' then n_samples self else d3_1 mb)
      \<and> d3_1 (h_y out) = d3_0 mb \<and> d3_2 (h_y out) = d3_2 mb)"
  using isl_forward_FullSeq forward_one_step_sizes by blast

theorem forward_calling_conventions_witness:
  "isl (forward (ex_attention ''categorical'' ''sample'') ex_rnd
          (FullSeq (unsqueeze1 ex_input) (Some ex_q_seq)) ex_memory (Some ex_lengths))
   \<and> (\<exists>out. forward (ex_attention ''categorical'' ''sample'') ex_rnd
          (OneStep ex_input (Some ex_q)) ex_memory (Some ex_lengths) = Inr out
        \<and> d2_0 (h_c out) = 2 \<and> d2_1 (h_c out) = 4
        \<and> d2_0 (c_align_vectors out) = 2 \<and> d2_1 (c_align_vectors out) = 3
        \<and> d3_0 (h_y out) = 5 \<and> d3_1 (h_y out) = 2 \<and> d3_2 (h_y out) = 4)"
proof -
  from ex_forward_sample obtain out where
    out: "forward (ex_attention ''categorical'' ''sample'') ex_rnd
            (OneStep ex_input (Some ex_q)) ex_memory (Some ex_lengths) = Inr out" ..
  from forward_calling_conventions
    [of "ex_attention ''categorical'' ''sample''" ex_rnd "unsqueeze1 ex_input" "Some ex_q_seq"
        ex_memory "Some ex_lengths" ex_input "Some ex_q" out] out
  show ?thesis by (auto simp: ex_memory_def)
qed

theorem forward_calling_conventions_counterexample:
  "forward (ex_attention ''categorical'' ''sample'') ex_rnd
     (FullSeq (unsqueeze1 ex_input) (Some ex_q_seq)) ex_memory (Some ex_lengths)
   = Inl AssertionError"
proof -
  have "\<exists>res. forward_body (ex_attention ''categorical'' ''sample'') ex_rnd
          (unsqueeze1 ex_input) (Some ex_q_seq) ex_memory (Some ex_lengths) = Inr res"
    by (rule ex_forward_body_sample)
       (simp_all add: ex_lengths_def lengths_max_def expandable_def)
  then obtain res where
    "forward_body (ex_attention ''categorical'' ''sample'') ex_rnd (unsqueeze1 ex_input)
       (Some ex_q_seq) ex_memory (Some ex_lengths) = Inr res" ..
  with ex_input_checks_FullSeq show ?thesis by (rule forward_full_sequence)
qed

subsection \<open>Enumeration\<close>

text \<open>
  C8. When a call of \<open>forward\<close> in the enumerating mode (\<^verbatim>\<open>"enum"\<close> in the code)
  returns, nothing was sampled, \<open>h_y\<close> holds exactly source_len pseudo-samples, the
  context of pseudo-sample \<open>s\<close> for example \<open>n\<close> is the memory vector \<open>memory_bank[n, s]\<close>
  itself, and \<open>h_y[s, n]\<close> is the output projection (\<open>linear_out\<close>, then \<open>tanh\<close>) of that
  vector concatenated with the query: no attention weight enters.
\<close>

theorem forward_enumerate:
  assumes ret: "forward self r (OneStep x q) mb ml = Inr out"
    and md: "mode self = ''enum''"
  shows "d3_0 (h_y out) = d3_1 mb \<and> d3_1 (h_y out) = d3_0 mb \<and> d3_2 (h_y out) = dim self
       \<and> (\<exists>ctx. sampled_context self None mb (d3_0 mb) 1 (d3_1 mb) (d3_2 mb) = Inr ctx
             \<and> d4_0 ctx = d3_1 mb
             \<and> (\<forall>s<d3_1 mb. \<forall>n<d3_0 mb. \<forall>d<d3_2 mb. el4 ctx s n 0 d = el3 mb n s d))
       \<and> (\<forall>s<d3_1 mb. \<forall>n<d3_0 mb. \<forall>h<dim self.
             el3 (h_y out) s n h =
               tanh (\<Sum>l<dim self * 2. linear_out self h l *
                       (if l < dim self then el3 mb n s l else el2 x n (l - dim self))))
       \<and> (\<forall>qo. info_q (dist_info out) = Some qo \<longrightarrow> samples qo = None)"
proof -
  from forward_InrD [OF ret] obtain x' qo qs hy hc c ps qsm slp where
    x': "OneStep x q = OneStep x' qo"
    and chk: "input_checks self (OneStep x q) mb = Inr (True, unsqueeze1 x', qs)"
    and body: "forward_body self r (unsqueeze1 x') qs mb ml = Inr (hy, hc, c, ps, qsm, slp)"
    and out: "one_step_output (d3_0 mb) (d3_1 mb) (d3_2 mb) hy hc c qs ps qsm slp = Inr out"
    by blast
  from x' have x: "x' = x" by simp
  note chkD = input_checks_InrD [OF chk, unfolded x]
  have D: "dim self = d3_2 mb" and N: "d2_0 x = d3_0 mb" and Dx: "d2_1 x = d3_2 mb"
    using chkD by (simp_all add: unsqueeze1_def)
  from forward_body_InrD [OF body, unfolded x] obtain m y ctx i4 ccat lin where
    po: "posterior_sample self r qs ml m = Inr (y, qsm, slp)"
    and sc: "sampled_context self y mb (d3_0 mb) (d3_1 (unsqueeze1 x)) (d3_1 mb) (d3_2 mb)
              = Inr ctx"
    and ex: "expand_as (unsqueeze0 (unsqueeze1 x)) ctx = Inr i4"
    and ct: "cat4 ctx i4 = Inr ccat"
    and li: "Linear4 (dim self * 2) (dim self) (linear_out self) ccat = Inr lin"
    and hy: "hy = map4t tanh lin"
    by blast
  from posterior_sample_InrD [OF po] md have y: "y = None" and qsm: "qsm = None" by auto
  have T: "d3_1 (unsqueeze1 x) = 1" by (simp add: unsqueeze1_def)
  from sc have sc1: "sampled_context self None mb (d3_0 mb) 1 (d3_1 mb) (d3_2 mb) = Inr ctx"
    by (simp only: y T)
  then have ctx: "ctx = \<lparr>d4_0 = d3_1 mb, d4_1 = d3_0 mb, d4_2 = 1, d4_3 = d3_2 mb,
          el4 = (\<lambda>s n t d. el3 mb n s d)\<rparr>"
    by (simp only: sampled_context_enum)
  note exD = expand_as_InrD [OF ex]
  note ctD = cat4_InrD [OF ct]
  note liD = Linear4_InrD [OF li]
  from one_step_output_InrD [OF out] have hout: "h_y out = squeeze2 hy"
    and qout: "info_q (dist_info out) =
            (case qs of None \<Rightarrow> None
             | Some q \<Rightarrow> Some \<lparr>alpha = map_option squeeze1 (alpha q), log_alpha = None,
                             dist_type = dist_type q,
                             samples = map_option squeeze2 qsm,
                             sample_log_probs = map_option squeeze_last slp\<rparr>)"
    by simp_all
  have sizes: "d3_0 (h_y out) = d3_1 mb \<and> d3_1 (h_y out) = d3_0 mb \<and> d3_2 (h_y out) = dim self"
    using liD ctD by (simp add: hout hy squeeze2_def map4t_def ctx)
  have ctxs: "\<exists>ctx. sampled_context self None mb (d3_0 mb) 1 (d3_1 mb) (d3_2 mb) = Inr ctx
             \<and> d4_0 ctx = d3_1 mb
             \<and> (\<forall>s<d3_1 mb. \<forall>n<d3_0 mb. \<forall>d<d3_2 mb. el4 ctx s n 0 d = el3 mb n s d)"
    using sc1 by (intro exI [of _ ctx]) (simp add: ctx)
  have cat_el: "el4 ccat s n 0 l =
      (if l < dim self then el3 mb n s l else el2 x n (l - dim self))"
    if "n < d3_0 mb" "l < dim self * 2" for s n l
  proof -
    have "l - d3_2 mb < d3_2 mb" if "\<not> l < d3_2 mb"
      using that \<open>l < dim self * 2\<close> D by simp
    then show ?thesis
      using ctD exD that N Dx D
      by (simp add: ctx unsqueeze0_def unsqueeze1_def)
  qed
  have elems: "\<forall>s<d3_1 mb. \<forall>n<d3_0 mb. \<forall>h<dim self.
             el3 (h_y out) s n h =
               tanh (\<Sum>l<dim self * 2. linear_out self h l *
                       (if l < dim self then el3 mb n s l else el2 x n (l - dim self)))"
  proof (intro allI impI)
    fix s n h
    assume "s < d3_1 mb" "n < d3_0 mb" "h < dim self"
    have "el3 (h_y out) s n h = tanh (\<Sum>l<dim self * 2. linear_out self h l * el4 ccat s n 0 l)"
      using liD by (simp add: hout hy squeeze2_def map4t_def)
    also have "(\<Sum>l<dim self * 2. linear_out self h l * el4 ccat s n 0 l) =
       (\<Sum>l<dim self * 2. linear_out self h l *
           (if l < dim self then el3 mb n s l else el2 x n (l - dim self)))"
      by (rule sum.cong) (simp_all add: cat_el [OF \<open>n < d3_0 mb\<close>])
    finally show "el3 (h_y out) s n h =
               tanh (\<Sum>l<dim self * 2. linear_out self h l *
                       (if l < dim self then el3 mb n s l else el2 x n (l - dim self)))" .
  qed
  have nosamples: "\<forall>qo. info_q (dist_info out) = Some qo \<longrightarrow> samples qo = None"
    using qout qsm by (auto split: option.splits)
  from sizes ctxs elems nosamples show ?thesis by (intro conjI) simp_all
qed

theorem forward_enumerate_witness:
  "\<exists>out. forward (ex_attention ''categorical'' ''enum'') ex_rnd
            (OneStep ex_input None) ex_memory (Some ex_lengths) = Inr out
     \<and> d3_0 (h_y out) = 3 \<and> d3_1 (h_y out) = 2 \<and> d3_2 (h_y out) = 4
     \<and> el3 (h_y out) 2 1 0 =
         tanh (\<Sum>l<8. if l < 4 then el3 ex_memory 1 2 l else el2 ex_input 1 (l - 4))"
proof -
  from ex_forward_enum obtain out where
    out: "forward (ex_attention ''categorical'' ''enum'') ex_rnd
            (OneStep ex_input None) ex_memory (Some ex_lengths) = Inr out" ..
  have md: "mode (ex_attention ''categorical'' ''enum'') = ''enum''" by simp
  note th = forward_enumerate [OF out md]
  from th have sz: "d3_0 (h_y out) = 3" "d3_1 (h_y out) = 2" "d3_2 (h_y out) = 4"
    by (simp_all add: ex_memory_def)
  from th have all: "\<forall>s<d3_1 ex_memory. \<forall>n<d3_0 ex_memory.
      \<forall>h<dim (ex_attention ''categorical'' ''enum'').
        el3 (h_y out) s n h =
          tanh (\<Sum>l<dim (ex_attention ''categorical'' ''enum'') * 2.
                  linear_out (ex_attention ''categorical'' ''enum'') h l *
                    (if l < dim (ex_attention ''categorical'' ''enum'')
                     then el3 ex_memory n s l
                     else el2 ex_input n (l - dim (ex_attention ''categorical'' ''enum''))))"
    by blast
  have "el3 (h_y out) 2 1 0 =
          tanh (\<Sum>l<dim (ex_attention ''categorical'' ''enum'') * 2.
                  linear_out (ex_attention ''categorical'' ''enum'') 0 l *
                    (if l < dim (ex_attention ''categorical'' ''enum'')
                     then el3 ex_memory 1 2 l
                     else el2 ex_input 1 (l - dim (ex_attention ''categorical'' ''enum''))))"
    by (rule all [rule_format]) (simp_all add: ex_memory_def)
  then have "el3 (h_y out) 2 1 0 =
         tanh (\<Sum>l<8. if l < 4 then el3 ex_memory 1 2 l else el2 ex_input 1 (l - 4))"
    by (simp cong: if_cong)
  with out sz show ?thesis by blast
qed

subsection \<open>Categorical samples\<close>

text \<open>
  C2. When \<open>sample_attn\<close> returns on a categorical bundle (whose \<open>log_alpha\<close> has the
  sizes of its \<open>alpha\<close>), it returns the samples together with their log-probabilities,
  and for every draw \<open>k\<close> and every cell \<open>(n, t)\<close> the entry \<open>sample_log_probs[k, n, t]\<close>
  is \<open>log_alpha[n, t, i]\<close> at the drawn index \<open>i\<close>, the position of the 1 of the sample.
\<close>

theorem sample_attn_log_probs:
  assumes ret: "sample_attn r ps K lengths m = Inr res"
    and cat: "dist_type ps = ''categorical''"
    and al: "alpha ps = Some a" and la: "log_alpha ps = Some la"
    and sz: "d3_0 la = d3_0 a" "d3_1 la = d3_1 a" "d3_2 la = d3_2 a"
  shows "\<exists>attns slp. res = (attns, Some slp)
     \<and> d3_0 slp = K \<and> d3_1 slp = d3_0 a \<and> d3_2 slp = d3_1 a
     \<and> (\<forall>k<K. \<forall>n<d3_0 a. \<forall>t<d3_1 a.
           \<exists>i<d3_2 a. i = categorical_sample r k (n * d3_1 a + t)
              \<and> el4 attns k n t i = 1
              \<and> el3 slp k n t = el3 la n t i)"
proof -
  from sample_attn_categorical_InrD [OF ret cat] al la obtain attns slp where
    res: "res = (attns, Some slp)"
    and draws: "\<forall>k<K. \<forall>n<d3_0 a. \<forall>t<d3_1 a. categorical_sample r k (n * d3_1 a + t) < d3_2 a"
    and attns: "attns = \<lparr>d4_0 = K, d4_1 = d3_0 a, d4_2 = d3_1 a, d4_3 = d3_2 a,
               el4 = (\<lambda>k n t s. if s = categorical_sample r k (n * d3_1 a + t) then 1 else 0)\<rparr>"
    and slp: "slp = \<lparr>d3_0 = K, d3_1 = d3_0 a, d3_2 = d3_1 a,
                el3 = (\<lambda>k n t. el3 la (bi (d3_0 la) n) (bi (d3_1 la) t)
                         (bi (d3_2 la) (categorical_sample r k (n * d3_1 a + t))))\<rparr>"
    by auto
  have "\<forall>k<K. \<forall>n<d3_0 a. \<forall>t<d3_1 a.
           \<exists>i<d3_2 a. i = categorical_sample r k (n * d3_1 a + t)
              \<and> el4 attns k n t i = 1
              \<and> el3 slp k n t = el3 la n t i"
    using draws by (simp add: attns slp sz)
  then show ?thesis
    using res by (simp add: slp)
qed

theorem sample_attn_log_probs_witness:
  "\<exists>attns slp. sample_attn ex_rnd ex_q_seq 5 (Some ex_lengths) None = Inr (attns, Some slp)
     \<and> d3_0 slp = 5 \<and> d3_1 slp = 2 \<and> d3_2 slp = 1
     \<and> el4 attns 4 1 0 2 = 1 \<and> el3 slp 4 1 0 = Fin (ln (1 / 3))"
proof -
  let ?a = "unsqueeze1 ex_alpha"
  let ?la = "unsqueeze1 (map2t (\<lambda>p. Fin (ln p)) ex_alpha)"
  have q: "dist_type ex_q_seq = ''categorical''" "alpha ex_q_seq = Some ?a"
    "log_alpha ex_q_seq = Some ?la"
    by (simp_all add: ex_q_seq_def)
  have sz: "d3_0 ?la = d3_0 ?a" "d3_1 ?la = d3_1 ?a" "d3_2 ?la = d3_2 ?a"
    by (simp_all add: unsqueeze1_def map2t_def)
  have "\<exists>res. sample_attn ex_rnd ex_q_seq 5 (Some ex_lengths) None = Inr res"
    by (rule sample_attn_categorical_returns [OF q sz])
       (simp add: unsqueeze1_def ex_alpha_def ex_rnd_def)
  then obtain res where
    res: "sample_attn ex_rnd ex_q_seq 5 (Some ex_lengths) None = Inr res" ..
  from sample_attn_log_probs [OF res q sz] obtain attns slp where
    1: "res = (attns, Some slp)" "d3_0 slp = 5" "d3_1 slp = d3_0 ?a" "d3_2 slp = d3_1 ?a"
    and 2: "\<forall>k<5. \<forall>n<d3_0 ?a. \<forall>t<d3_1 ?a.
           \<exists>i<d3_2 ?a. i = categorical_sample ex_rnd k (n * d3_1 ?a + t)
              \<and> el4 attns k n t i = 1
              \<and> el3 slp k n t = el3 ?la n t i"
    by blast
  have "\<exists>i<d3_2 ?a. i = categorical_sample ex_rnd 4 (1 * d3_1 ?a + 0)
              \<and> el4 attns 4 1 0 i = 1
              \<and> el3 slp 4 1 0 = el3 ?la 1 0 i"
    by (rule 2 [rule_format]) (simp_all add: unsqueeze1_def ex_alpha_def)
  then have "el4 attns 4 1 0 2 = 1 \<and> el3 slp 4 1 0 = Fin (ln (1 / 3))"
    by (auto simp: ex_rnd_def unsqueeze1_def map2t_def ex_alpha_def)
  with res 1 show ?thesis
    by (simp add: unsqueeze1_def ex_alpha_def)
qed

lemma forward_q_samples:
  assumes ret: "forward self r (OneStep x (Some q)) mb ml = Inr out"
    and md: "mode self = ''sample''"
    and qa: "alpha q = Some a"
  shows "\<exists>qo smp. info_q (dist_info out) = Some qo \<and> samples qo = Some smp
     \<and> d3_0 smp = n_samples self \<and> d3_1 smp = d2_0 a \<and> d3_2 smp = d2_1 a
     \<and> el3 smp = (\<lambda>k n s. if s = categorical_sample r k n then 1 else 0)
     \<and> (\<forall>k<n_samples self. \<forall>n<d2_0 a. categorical_sample r k n < d2_1 a)"
proof -
  from forward_InrD [OF ret] obtain x' qo qs hy hc c ps qsm slp where
    chk: "input_checks self (OneStep x (Some q)) mb = Inr (True, unsqueeze1 x', qs)"
    and body: "forward_body self r (unsqueeze1 x') qs mb ml = Inr (hy, hc, c, ps, qsm, slp)"
    and out: "one_step_output (d3_0 mb) (d3_1 mb) (d3_2 mb) hy hc c qs ps qsm slp = Inr out"
    by blast
  from input_checks_InrD [OF chk] have
    "one_step_input (OneStep x (Some q)) = Inr (True, unsqueeze1 x', qs)" by simp
  from one_step_input_OneStep [OF this] qa obtain q3 where
    q3: "qs = Some q3" "alpha q3 = Some (unsqueeze1 a)"
    by auto
  from forward_body_InrD [OF body] obtain m y where
    po: "posterior_sample self r qs ml m = Inr (y, qsm, slp)"
    by blast
  from posterior_sample_InrD [OF po] md q3(1) obtain smp where
    cat: "dist_type q3 = ''categorical''" and qsm: "qsm = Some smp"
    and sa: "sample_attn r q3 (n_samples self) ml (case ml of None \<Rightarrow> None | Some _ \<Rightarrow> m)
               = Inr (smp, slp)"
    by auto
  let ?a = "unsqueeze1 a"
  from sample_attn_categorical_InrD [OF sa cat] q3(2) have
    draws: "\<forall>k<n_samples self. \<forall>n<d3_0 ?a. \<forall>t<d3_1 ?a.
              categorical_sample r k (n * d3_1 ?a + t) < d3_2 ?a"
    and smp: "smp = \<lparr>d4_0 = n_samples self, d4_1 = d3_0 ?a, d4_2 = d3_1 ?a, d4_3 = d3_2 ?a,
               el4 = (\<lambda>k n t s. if s = categorical_sample r k (n * d3_1 ?a + t) then 1 else 0)\<rparr>"
    by auto
  from draws have draws': "\<forall>k<n_samples self. \<forall>n<d2_0 a. categorical_sample r k n < d2_1 a"
    by (simp add: unsqueeze1_def)
  from one_step_output_InrD [OF out] q3(1) qsm have
    "info_q (dist_info out) =
       Some \<lparr>alpha = map_option squeeze1 (alpha q3), log_alpha = None,
             dist_type = dist_type q3, samples = Some (squeeze2 smp),
             sample_log_probs = map_option squeeze_last slp\<rparr>"
    by simp
  then show ?thesis
    using draws' by (simp add: smp squeeze2_def unsqueeze1_def)
qed

lemma forward_returns_sample:
  assumes cat: "p_dist_type self = ''categorical''"
    and md: "mode self = ''sample''" and up: "\<not> use_prior self"
    and q: "dist_type q = ''categorical''" "alpha q = Some a" "log_alpha q = Some la"
    and la: "d2_0 la = d3_0 mb" "d2_1 la = d3_1 mb"
    and a: "d2_0 a = d3_0 mb" "d2_1 a = d3_1 mb"
    and inp: "d2_0 x = d3_0 mb" "d2_1 x = d3_2 mb" "dim self = d3_2 mb"
    and ml: "\<And>l. ml = Some l \<Longrightarrow> d1_0 l = d3_0 mb \<and> 0 < d3_0 mb \<and> 0 \<le> lengths_max l
                  \<and> expandable (nat (lengths_max l)) (d3_1 mb)"
    and pos: "0 < d3_1 mb" "0 < d3_2 mb"
    and draws: "\<forall>k<n_samples self. \<forall>n<d3_0 mb. categorical_sample r k n < d3_1 mb"
  shows "\<exists>out. forward self r (OneStep x (Some q)) mb ml = Inr out"
proof -
  let ?q3 = "\<lparr>alpha = Some (unsqueeze1 a), log_alpha = Some (unsqueeze1 la),
               dist_type = dist_type q, samples = None, sample_log_probs = None\<rparr> :: q_seq"
  have chk: "input_checks self (OneStep x (Some q)) mb = Inr (True, unsqueeze1 x, Some ?q3)"
    using q inp by (simp add: input_checks_def one_step_input_def aeq_def unsqueeze1_def)
  have "\<exists>res. forward_body self r (unsqueeze1 x) (Some ?q3) mb ml = Inr res"
    by (rule forward_body_returns_sample
          [where a = "unsqueeze1 a" and la = "unsqueeze1 la"])
       (use assms in \<open>simp_all add: unsqueeze1_def\<close>)
  then obtain res where "forward_body self r (unsqueeze1 x) (Some ?q3) mb ml = Inr res" ..
  with chk show ?thesis by (rule forward_returns)
qed

text \<open>
  C3 (as amended). When a one-step call of \<open>forward\<close> with \<open>memory_lengths\<close> returns
  in mode \<^verbatim>\<open>"sample"\<close>, every sample in the \<open>q\<close> bundle of the result is a one-hot
  vector: exactly one entry is 1 and the others are 0. The position of the 1 is a
  position to which the supplied \<open>q_scores.alpha\<close> gives positive probability;
  \<open>forward\<close> does not mask \<open>q_scores\<close> before sampling, so that position lies within the
  valid length of the example when the supplied \<open>alpha\<close> is 0 at the padded positions.
\<close>

theorem forward_categorical_samples:
  assumes ret: "forward self r (OneStep x (Some q)) mb (Some lengths) = Inr out"
    and md: "mode self = ''sample''"
    and qa: "alpha q = Some a"
    and sz: "d2_0 a = d3_0 mb" "d1_0 lengths = d3_0 mb"
    and sup: "draws_in_support r (n_samples self) a"
  shows "\<exists>qo smp. info_q (dist_info out) = Some qo \<and> samples qo = Some smp
     \<and> d3_0 smp = n_samples self \<and> d3_1 smp = d3_0 mb \<and> d3_2 smp = d2_1 a
     \<and> (\<forall>k<n_samples self. \<forall>n<d3_0 mb.
           \<exists>i<d2_1 a. el3 smp k n i = 1
              \<and> (\<forall>s<d2_1 a. s \<noteq> i \<longrightarrow> el3 smp k n s = 0)
              \<and> 0 < el2 a n i
              \<and> ((\<forall>s<d2_1 a. el1 lengths n \<le> int s \<longrightarrow> el2 a n s = 0)
                    \<longrightarrow> int i < el1 lengths n))"
proof -
  from forward_q_samples [OF ret md qa] obtain qo smp where
    1: "info_q (dist_info out) = Some qo" "samples qo = Some smp"
      "d3_0 smp = n_samples self" "d3_1 smp = d2_0 a" "d3_2 smp = d2_1 a"
    and el: "el3 smp = (\<lambda>k n s. if s = categorical_sample r k n then 1 else 0)"
    by blast
  have sup': "categorical_sample r k n < d2_1 a \<and> 0 < el2 a n (categorical_sample r k n)"
    if "k < n_samples self" "n < d2_0 a" for k n
    using sup that by (simp add: draws_in_support_def all_below_iff)
  have "\<exists>i<d2_1 a. el3 smp k n i = 1
              \<and> (\<forall>s<d2_1 a. s \<noteq> i \<longrightarrow> el3 smp k n s = 0)
              \<and> 0 < el2 a n i
              \<and> ((\<forall>s<d2_1 a. el1 lengths n \<le> int s \<longrightarrow> el2 a n s = 0)
                    \<longrightarrow> int i < el1 lengths n)"
    if "k < n_samples self" "n < d3_0 mb" for k n
  proof -
    let ?i = "categorical_sample r k n"
    from sup' [of k n] that sz have i: "?i < d2_1 a" "0 < el2 a n ?i" by simp_all
    have "(\<forall>s<d2_1 a. el1 lengths n \<le> int s \<longrightarrow> el2 a n s = 0) \<longrightarrow> int ?i < el1 lengths n"
      using i by force
    with i show ?thesis
      by (intro exI [of _ ?i]) (simp add: el)
  qed
  with 1 sz show ?thesis by simp
qed

lemma ex_masked_returns:
  "\<exists>out. forward (ex_attention ''categorical'' ''sample'') ex_rnd1
            (OneStep ex_input (Some ex_q_masked)) ex_memory (Some ex_lengths) = Inr out"
  by (rule forward_returns_sample
        [where a = ex_alpha_masked
           and la = "map2t (\<lambda>p. if p = 0 then NegInf else Fin (ln p)) ex_alpha_masked"])
     (simp_all add: ex_q_masked_def ex_alpha_masked_def ex_memory_def ex_input_def
        ex_lengths_def ex_rnd1_def map2t_def lengths_max_def expandable_def)

theorem forward_categorical_samples_witness:
  "\<exists>out qo smp i. forward (ex_attention ''categorical'' ''sample'') ex_rnd1
            (OneStep ex_input (Some ex_q_masked)) ex_memory (Some ex_lengths) = Inr out
     \<and> info_q (dist_info out) = Some qo \<and> samples qo = Some smp
     \<and> d3_0 smp = 5 \<and> d3_1 smp = 2 \<and> d3_2 smp = 3
     \<and> i < (2::nat) \<and> el3 smp 4 1 i = 1 \<and> (\<forall>s<3. s \<noteq> i \<longrightarrow> el3 smp 4 1 s = 0)"
proof -
  from ex_masked_returns obtain out where
    out: "forward (ex_attention ''categorical'' ''sample'') ex_rnd1
            (OneStep ex_input (Some ex_q_masked)) ex_memory (Some ex_lengths) = Inr out" ..
  have md: "mode (ex_attention ''categorical'' ''sample'') = ''sample''" by simp
  have qa: "alpha ex_q_masked = Some ex_alpha_masked" by (simp add: ex_q_masked_def)
  have sz: "d2_0 ex_alpha_masked = d3_0 ex_memory" "d1_0 ex_lengths = d3_0 ex_memory"
    by (simp_all add: ex_alpha_masked_def ex_memory_def ex_lengths_def)
  have sup: "draws_in_support ex_rnd1 (n_samples (ex_attention ''categorical'' ''sample''))
               ex_alpha_masked"
    by (simp add: draws_in_support_def all_below_iff ex_rnd1_def ex_alpha_masked_def
        ex_lengths_def)
  from forward_categorical_samples [OF out md qa sz sup] obtain qo smp where
    1: "info_q (dist_info out) = Some qo" "samples qo = Some smp"
      "d3_0 smp = 5" "d3_1 smp = 2" "d3_2 smp = 3"
    and 2: "\<forall>k<5. \<forall>n<2.
           \<exists>i<3. el3 smp k n i = 1
              \<and> (\<forall>s<3. s \<noteq> i \<longrightarrow> el3 smp k n s = 0)
              \<and> 0 < el2 ex_alpha_masked n i
              \<and> ((\<forall>s<3. el1 ex_lengths n \<le> int s \<longrightarrow> el2 ex_alpha_masked n s = 0)
                    \<longrightarrow> int i < el1 ex_lengths n)"
    by (auto simp: ex_memory_def ex_alpha_masked_def)
  have pad: "\<forall>s<3. el1 ex_lengths 1 \<le> int s \<longrightarrow> el2 ex_alpha_masked 1 s = 0"
    by (simp add: ex_alpha_masked_def)
  from 2 [rule_format, of 4 1] pad obtain i where
    i: "el3 smp 4 1 i = 1" "\<forall>s<3. s \<noteq> i \<longrightarrow> el3 smp 4 1 s = 0" "int i < el1 ex_lengths 1"
    by auto
  from i(3) have "i < 2" by (simp add: ex_lengths_def)
  with out 1 i(1,2) show ?thesis by blast
qed

theorem forward_categorical_samples_counterexample:
  "q_sample_entry
     (forward (ex_attention ''categorical'' ''sample'') ex_rnd
        (OneStep ex_input (Some ex_q)) ex_memory (Some ex_lengths)) 0 1 2 = Some 1
   \<and> el1 ex_lengths 1 = 2
   \<and> draws_in_support ex_rnd 5 ex_alpha"
proof -
  from ex_forward_sample obtain out where
    out: "forward (ex_attention ''categorical'' ''sample'') ex_rnd
            (OneStep ex_input (Some ex_q)) ex_memory (Some ex_lengths) = Inr out" ..
  have md: "mode (ex_attention ''categorical'' ''sample'') = ''sample''" by simp
  have qa: "alpha ex_q = Some ex_alpha" by (simp add: ex_q_def)
  from forward_q_samples [OF out md qa] obtain qo smp where
    "info_q (dist_info out) = Some qo" "samples qo = Some smp"
    "el3 smp = (\<lambda>k n s. if s = categorical_sample ex_rnd k n then 1 else 0)"
    by blast
  then have "q_sample_entry (Inr out) 0 1 2 = Some 1"
    by (simp add: q_sample_entry_def ex_rnd_def)
  then have 1: "q_sample_entry
     (forward (ex_attention ''categorical'' ''sample'') ex_rnd
        (OneStep ex_input (Some ex_q)) ex_memory (Some ex_lengths)) 0 1 2 = Some 1"
    by (simp only: out)
  have 2: "el1 ex_lengths 1 = 2"
    by (simp add: ex_lengths_def)
  have 3: "draws_in_support ex_rnd 5 ex_alpha"
    by (simp add: draws_in_support_def all_below_iff ex_rnd_def ex_alpha_def)
  show ?thesis
    by (intro conjI 1 2 3)
qed

subsection \<open>The dirichlet branch\<close>









end
